theory Spec2Isabelle
  imports Complex_Main
begin

section \<open>JavaScript values\<close>

text \<open>
  A number is a double: NaN, the two infinities, or a finite value. The source only
  compares numbers and never computes with them, so a finite double is represented by its
  exact rational value (negative zero is zero: the two compare equal and are both falsy).
\<close>

datatype jsnum = NaN | NegInf | Fin rat | PosInf

text \<open>
  The values that results, trial documents and search-space expressions are made of.
  An object is the list of its own enumerable properties in the order of
  \<open>Object.keys\<close>; a property whose value is \<open>undefined\<close> and a property that is
  absent read the same (\<open>o[k] === undefined\<close>).
\<close>

datatype jsval =
    JUndefined
  | JNull
  | JBool bool
  | JNum jsnum
  | JStr string
  | JArr "jsval list"
  | JObj "(string \<times> jsval) list"

type_synonym jsobj = "(string \<times> jsval) list"

text \<open>The errors the source throws, and the TypeError of the language itself.\<close>

datatype error =
    TypeError
  | NotAnObject
  | MissingKey string
  | WrongExpKey jsval jsval
  | NoLossValue
  | InvalidStatus jsval
  | InvalidLossAccuracy
  | Raised string

text \<open>\<open>o[k]\<close> on an object.\<close>

definition obj_get :: "jsobj \<Rightarrow> string \<Rightarrow> jsval" where
  "obj_get fs k = (case map_of fs k of None \<Rightarrow> JUndefined | Some v \<Rightarrow> v)"

text \<open>
  \<open>v.k\<close> on any value, for the property names the source reads (\<open>state\<close>,
  \<open>expKey\<close>, \<open>result\<close>, \<open>status\<close>, \<open>loss\<close>, \<open>accuracy\<close>, \<open>name\<close>), none of
  which is a built-in property of a boolean, a number, a string or an array: reading a
  property of \<open>undefined\<close> or \<open>null\<close> throws a TypeError.
\<close>

fun get_prop :: "jsval \<Rightarrow> string \<Rightarrow> error + jsval" where
  "get_prop JUndefined k = Inl TypeError"
| "get_prop JNull k = Inl TypeError"
| "get_prop (JObj fs) k = Inr (obj_get fs k)"
| "get_prop v k = Inr JUndefined"

text \<open>
  \<open>a === b\<close>. NaN equals nothing. Two arrays or two objects are equal only as the same
  reference; a value of this type carries no identity, so on two of them the answer is
  that of two distinct objects. Every use below has a primitive on one side. Against
  \<open>undefined\<close>, \<open>null\<close>, a boolean, a string or a number other than NaN,
  \<open>===\<close> is the equality of values (\<open>strict_eq_primitive\<close>), and the definitions
  below write such a test as an equation.
\<close>

fun strict_eq :: "jsval \<Rightarrow> jsval \<Rightarrow> bool" where
  "strict_eq (JNum NaN) b = False"
| "strict_eq a (JNum NaN) = False"
| "strict_eq (JArr xs) b = False"
| "strict_eq (JObj fs) b = False"
| "strict_eq a b = (a = b)"

text \<open>\<open>xs.indexOf(v)\<close>: the first position that is strictly equal to \<open>v\<close>, or -1.\<close>

fun indexOf :: "jsval list \<Rightarrow> jsval \<Rightarrow> int" where
  "indexOf [] v = -1"
| "indexOf (x # xs) v =
     (if strict_eq x v then 0
      else (let i = indexOf xs v in if i < 0 then -1 else i + 1))"

text \<open>Truthiness, and \<open>a || b\<close>.\<close>

fun truthy :: "jsval \<Rightarrow> bool" where
  "truthy JUndefined = False"
| "truthy JNull = False"
| "truthy (JBool b) = b"
| "truthy (JNum NaN) = False"
| "truthy (JNum (Fin q)) = (q \<noteq> 0)"
| "truthy (JNum n) = True"
| "truthy (JStr s) = (s \<noteq> [])"
| "truthy (JArr xs) = True"
| "truthy (JObj fs) = True"

text \<open>\<open>typeof v === 'number'\<close> and \<open>Number.isNaN(v)\<close>.\<close>

fun is_number :: "jsval \<Rightarrow> bool" where
  "is_number (JNum n) = True"
| "is_number v = False"

definition isNaN :: "jsval \<Rightarrow> bool" where
  "isNaN v = (v = JNum NaN)"

section \<open>Result model\<close>

definition STATUS_NEW :: string where "STATUS_NEW = ''new''"
definition STATUS_RUNNING :: string where "STATUS_RUNNING = ''running''"
definition STATUS_SUSPENDED :: string where "STATUS_SUSPENDED = ''suspended''"
definition STATUS_OK :: string where "STATUS_OK = ''ok''"
definition STATUS_FAIL :: string where "STATUS_FAIL = ''fail''"

definition STATUS_STRINGS :: "jsval list" where
  "STATUS_STRINGS = [JStr ''new'', JStr ''running'', JStr ''suspended'', JStr ''ok'', JStr ''fail'']"

definition JOB_STATE_NEW :: jsval where "JOB_STATE_NEW = JNum (Fin 0)"
definition JOB_STATE_RUNNING :: jsval where "JOB_STATE_RUNNING = JNum (Fin 1)"
definition JOB_STATE_DONE :: jsval where "JOB_STATE_DONE = JNum (Fin 2)"
definition JOB_STATE_ERROR :: jsval where "JOB_STATE_ERROR = JNum (Fin 3)"

definition TRIAL_KEYS :: "string list" where
  "TRIAL_KEYS = [''id'', ''result'', ''args'', ''state'', ''book_time'', ''refresh_time'']"

section \<open>Domain adapter\<close>

text \<open>
  A domain pairs the objective function with its fixed parameters. The objective function
  either throws or yields a value (the value its promise resolves to).
\<close>

record domain =
  fn :: "jsval \<Rightarrow> jsval \<Rightarrow> error + jsval"
  expr :: jsval
  params :: jsval

text \<open>
  What \<open>Domain.evaluate\<close> does with the value \<open>rval\<close> the objective function returned.
  Destructuring \<open>{ status, loss, accuracy }\<close> reads the three properties, and throws a
  TypeError on \<open>null\<close>.
\<close>

definition evaluate_rval :: "jsval \<Rightarrow> error + jsval" where
  "evaluate_rval rval =
     (if is_number rval \<and> \<not> isNaN rval
      then Inr (JObj [(''loss'', rval), (''status'', JStr STATUS_OK)])
      else if rval = JUndefined then Inl NoLossValue
      else (case get_prop rval ''status'' of Inl e \<Rightarrow> Inl e | Inr status \<Rightarrow>
            (case get_prop rval ''loss'' of Inl e \<Rightarrow> Inl e | Inr loss \<Rightarrow>
             (case get_prop rval ''accuracy'' of Inl e \<Rightarrow> Inl e | Inr accuracy \<Rightarrow>
              if indexOf STATUS_STRINGS status < 0 then Inl (InvalidStatus status)
              else if status = JStr STATUS_OK \<and> loss = JUndefined \<and> accuracy = JUndefined
                   then Inl InvalidLossAccuracy
              else Inr rval))))"

definition evaluate :: "domain \<Rightarrow> jsval \<Rightarrow> error + jsval" where
  "evaluate d args =
     (case fn d args (params d) of Inl e \<Rightarrow> Inl e | Inr rval \<Rightarrow> evaluate_rval rval)"

definition newResult :: jsval where
  "newResult = JObj [(''status'', JStr STATUS_NEW)]"

section \<open>Relational comparison\<close>

text \<open>
  \<open>ToNumber\<close> on the values whose conversion needs no parsing: \<open>undefined\<close> is NaN,
  \<open>null\<close> is 0, a boolean is 0 or 1.
\<close>

fun to_number :: "jsval \<Rightarrow> jsnum option" where
  "to_number JUndefined = Some NaN"
| "to_number JNull = Some (Fin 0)"
| "to_number (JBool b) = Some (Fin (if b then 1 else 0))"
| "to_number (JNum n) = Some n"
| "to_number v = None"

text \<open>\<open>x < y\<close> on numbers: false as soon as one of them is NaN.\<close>

fun num_lt :: "jsnum \<Rightarrow> jsnum \<Rightarrow> bool" where
  "num_lt NaN y = False"
| "num_lt x NaN = False"
| "num_lt NegInf y = (y \<noteq> NegInf)"
| "num_lt x NegInf = False"
| "num_lt PosInf y = False"
| "num_lt x PosInf = True"
| "num_lt (Fin p) (Fin q) = (p < q)"

text \<open>
  \<open>a < b\<close> on values. Where an operand is a string, an array or an object the language
  decides through \<open>ToPrimitive\<close> and its number parser, which are no part of this
  repository: the comparison on such operands is the parameter \<open>other\<close>.
  \<open>a > b\<close> is \<open>b < a\<close>.
\<close>

definition js_lt :: "(jsval \<Rightarrow> jsval \<Rightarrow> bool) \<Rightarrow> jsval \<Rightarrow> jsval \<Rightarrow> bool" where
  "js_lt other a b =
     (case (to_number a, to_number b) of
        (Some x, Some y) \<Rightarrow> num_lt x y
      | _ \<Rightarrow> other a b)"

definition js_gt :: "(jsval \<Rightarrow> jsval \<Rightarrow> bool) \<Rightarrow> jsval \<Rightarrow> jsval \<Rightarrow> bool" where
  "js_gt other a b = js_lt other b a"

section \<open>Trial store\<close>

text \<open>\<open>range(start, end)\<close>: an array of \<open>end - start\<close> numbers \<open>k + start\<close>.\<close>

definition range_js :: "nat \<Rightarrow> nat \<Rightarrow> nat list" where
  "range_js start end' = map (\<lambda>k. k + start) [0..<end' - start]"

text \<open>
  The store: the reserved ids, the authoritative list of documents, the derived view and
  the experiment key (\<open>None\<close> is \<open>null\<close>, otherwise a string).
\<close>

record Trials =
  ids :: "nat list"
  dynamicTrials :: "jsobj list"
  trials :: "jsobj list"
  expKey :: "string option"

definition key_val :: "string option \<Rightarrow> jsval" where
  "key_val k = (case k of None \<Rightarrow> JNull | Some s \<Rightarrow> JStr s)"

definition refresh :: "Trials \<Rightarrow> Trials" where
  "refresh s =
     (if expKey s = None
      then s\<lparr>trials := filter (\<lambda>trial. obj_get trial ''state'' \<noteq> JOB_STATE_ERROR)
                           (dynamicTrials s)\<rparr>
      else s\<lparr>trials := filter (\<lambda>trial. obj_get trial ''state'' \<noteq> JOB_STATE_ERROR
                                    \<and> obj_get trial ''expKey'' = key_val (expKey s))
                           (dynamicTrials s),
              ids := []\<rparr>)"

text \<open>The constructor: \<open>new Trials(expKey = null, refresh = true)\<close>.\<close>

definition new_Trials :: "string option \<Rightarrow> bool \<Rightarrow> Trials" where
  "new_Trials k r =
     (let s = \<lparr>ids = [], dynamicTrials = [], trials = [], expKey = k\<rparr>
      in if r then refresh s else s)"

definition length_js :: "Trials \<Rightarrow> nat" where
  "length_js s = length (trials s)"

definition results :: "Trials \<Rightarrow> jsval list" where
  "results s = map (\<lambda>trial. obj_get trial ''result'') (trials s)"

definition args :: "Trials \<Rightarrow> jsval list" where
  "args s = map (\<lambda>trial. obj_get trial ''args'') (trials s)"

text \<open>
  \<open>assertValidTrial\<close>: a document with no key at all is refused first, then the first
  of the six keys that reads \<open>undefined\<close>, then a foreign experiment key.
\<close>

definition assertValidTrial :: "Trials \<Rightarrow> jsobj \<Rightarrow> error + jsobj" where
  "assertValidTrial s trial =
     (if length (map fst trial) \<le> 0 then Inl NotAnObject
      else (case find (\<lambda>key. obj_get trial key = JUndefined) TRIAL_KEYS of
              Some missingTrialKey \<Rightarrow> Inl (MissingKey missingTrialKey)
            | None \<Rightarrow>
                if obj_get trial ''expKey'' \<noteq> key_val (expKey s)
                then Inl (WrongExpKey (obj_get trial ''expKey'') (key_val (expKey s)))
                else Inr trial))"

definition internalInsertTrialDocs :: "Trials \<Rightarrow> jsobj list \<Rightarrow> jsval list \<times> Trials" where
  "internalInsertTrialDocs s docs =
     (let rval = map (\<lambda>doc. obj_get doc ''id'') docs
      in (rval, s\<lparr>dynamicTrials := dynamicTrials s @ docs\<rparr>))"

text \<open>
  The two inserts return what the call returned or threw, and the store after the call: a
  call that throws has not assigned to the store.
\<close>

definition insertTrialDoc :: "Trials \<Rightarrow> jsobj \<Rightarrow> (error + jsval) \<times> Trials" where
  "insertTrialDoc s trial =
     (case assertValidTrial s trial of
        Inl e \<Rightarrow> (Inl e, s)
      | Inr doc \<Rightarrow>
          (case internalInsertTrialDocs s [doc] of
             (rval, s') \<Rightarrow> (Inr (case rval of [] \<Rightarrow> JUndefined | x # _ \<Rightarrow> x), s')))"

text \<open>\<open>trials.map(trial => this.assertValidTrial(trial))\<close> stops at the first throw.\<close>

fun assertValidTrials :: "Trials \<Rightarrow> jsobj list \<Rightarrow> error + jsobj list" where
  "assertValidTrials s [] = Inr []"
| "assertValidTrials s (trial # rest) =
     (case assertValidTrial s trial of
        Inl e \<Rightarrow> Inl e
      | Inr doc \<Rightarrow>
          (case assertValidTrials s rest of Inl e \<Rightarrow> Inl e | Inr docs \<Rightarrow> Inr (doc # docs)))"

definition insertTrialDocs :: "Trials \<Rightarrow> jsobj list \<Rightarrow> (error + jsval list) \<times> Trials" where
  "insertTrialDocs s ts =
     (case assertValidTrials s ts of
        Inl e \<Rightarrow> (Inl e, s)
      | Inr docs \<Rightarrow>
          (case internalInsertTrialDocs s docs of (rval, s') \<Rightarrow> (Inr rval, s')))"

definition newTrialIds :: "Trials \<Rightarrow> nat \<Rightarrow> nat list \<times> Trials" where
  "newTrialIds s N =
     (let aa = length (ids s);
          rval = range_js aa (aa + N)
      in (rval, s\<lparr>ids := ids s @ rval\<rparr>))"

text \<open>\<open>xs[i]\<close> on an array: \<open>undefined\<close> out of range.\<close>

definition at_js :: "jsval list \<Rightarrow> nat \<Rightarrow> jsval" where
  "at_js xs i = (if i < length xs then xs ! i else JUndefined)"

definition newTrialDocs :: "Trials \<Rightarrow> jsval list \<Rightarrow> jsval list \<Rightarrow> jsval list \<Rightarrow> jsobj list" where
  "newTrialDocs s is rs as =
     map (\<lambda>i. [(''state'', JOB_STATE_NEW),
                (''id'', at_js is i),
                (''result'', at_js rs i),
                (''args'', at_js as i),
                (''expKey'', key_val (expKey s)),
                (''book_time'', JNull),
                (''refresh_time'', JNull)])
         [0..<length is]"

definition deleteAll :: "Trials \<Rightarrow> Trials" where
  "deleteAll s = refresh (s\<lparr>dynamicTrials := []\<rparr>)"

text \<open>\<open>xs.filter(p)\<close> and \<open>xs.map(f)\<close> where the callback may throw.\<close>

fun filter_err :: "('a \<Rightarrow> error + bool) \<Rightarrow> 'a list \<Rightarrow> error + 'a list" where
  "filter_err p [] = Inr []"
| "filter_err p (x # xs) =
     (case p x of
        Inl e \<Rightarrow> Inl e
      | Inr b \<Rightarrow>
          (case filter_err p xs of
             Inl e \<Rightarrow> Inl e
           | Inr ys \<Rightarrow> Inr (if b then x # ys else ys)))"

fun map_err :: "('a \<Rightarrow> error + 'b) \<Rightarrow> 'a list \<Rightarrow> error + 'b list" where
  "map_err f [] = Inr []"
| "map_err f (x # xs) =
     (case f x of
        Inl e \<Rightarrow> Inl e
      | Inr y \<Rightarrow> (case map_err f xs of Inl e \<Rightarrow> Inl e | Inr ys \<Rightarrow> Inr (y # ys)))"

text \<open>
  \<open>countByStateSynced(arg, trials = null)\<close>: the documents counted are the view, or the
  array passed; \<open>arg\<close> is one state or an array of states.
\<close>

definition countByStateSynced :: "Trials \<Rightarrow> jsval \<Rightarrow> jsval list option \<Rightarrow> error + nat" where
  "countByStateSynced s arg ts =
     (let vTrials = (case ts of None \<Rightarrow> map JObj (trials s) | Some given \<Rightarrow> given);
          vArg = (case arg of JArr xs \<Rightarrow> xs | _ \<Rightarrow> [arg])
      in (case filter_err
                 (\<lambda>doc. case get_prop doc ''state'' of
                           Inl e \<Rightarrow> Inl e
                         | Inr st \<Rightarrow> Inr (indexOf vArg st \<ge> 0))
                 vTrials of
            Inl e \<Rightarrow> Inl e
          | Inr queue \<Rightarrow> Inr (length queue)))"

text \<open>
  \<open>countByStateUnsynced\<close>: under a non-null experiment key the documents are mapped
  (\<open>Array.prototype.map\<close>) to the booleans \<open>trial.expKey === this.expKey\<close>.
\<close>

definition countByStateUnsynced :: "Trials \<Rightarrow> jsval \<Rightarrow> error + nat" where
  "countByStateUnsynced s arg =
     (let expTrials =
            (if expKey s \<noteq> None
             then map (\<lambda>trial. JBool (obj_get trial ''expKey'' = key_val (expKey s)))
                      (dynamicTrials s)
             else map JObj (dynamicTrials s))
      in countByStateSynced s arg (Some expTrials))"

definition losses :: "Trials \<Rightarrow> error + jsval list" where
  "losses s =
     map_err (\<lambda>r. case get_prop r ''loss'' of
                     Inl e \<Rightarrow> Inl e
                   | Inr l \<Rightarrow> if truthy l then Inr l else get_prop r ''accuracy'')
             (results s)"

definition statuses :: "Trials \<Rightarrow> error + jsval list" where
  "statuses s = map_err (\<lambda>r. get_prop r ''status'') (results s)"

text \<open>
  A comparator takes two results and answers whether the first is strictly better, or
  throws. The default one, and the one \<open>argmax\<close> passes.
\<close>

type_synonym comparator = "jsval \<Rightarrow> jsval \<Rightarrow> error + bool"

definition compare_default :: "(jsval \<Rightarrow> jsval \<Rightarrow> bool) \<Rightarrow> comparator" where
  "compare_default other a b =
     (case get_prop a ''loss'' of
        Inl e \<Rightarrow> Inl e
      | Inr al \<Rightarrow>
          if al \<noteq> JUndefined
          then (case get_prop b ''loss'' of
                  Inl e \<Rightarrow> Inl e
                | Inr bl \<Rightarrow> Inr (js_lt other al bl))
          else (case get_prop a ''accuracy'' of
                  Inl e \<Rightarrow> Inl e
                | Inr aa \<Rightarrow>
                    (case get_prop b ''accuracy'' of
                       Inl e \<Rightarrow> Inl e
                     | Inr ba \<Rightarrow> Inr (js_gt other aa ba))))"

definition compare_argmax :: "(jsval \<Rightarrow> jsval \<Rightarrow> bool) \<Rightarrow> comparator" where
  "compare_argmax other a b =
     (case get_prop a ''loss'' of
        Inl e \<Rightarrow> Inl e
      | Inr al \<Rightarrow>
          if al \<noteq> JUndefined
          then (case get_prop b ''loss'' of
                  Inl e \<Rightarrow> Inl e
                | Inr bl \<Rightarrow> Inr (js_gt other al bl))
          else (case get_prop a ''accuracy'' of
                  Inl e \<Rightarrow> Inl e
                | Inr aa \<Rightarrow>
                    (case get_prop b ''accuracy'' of
                       Inl e \<Rightarrow> Inl e
                     | Inr ba \<Rightarrow> Inr (js_gt other aa ba))))"

text \<open>
  The \<open>forEach\<close> of \<open>bestTrial\<close>, with the current \<open>best\<close>: \<open>&&\<close> calls the
  comparator only on a trial whose result status is \<open>ok\<close>.
\<close>

fun bestTrial_forEach :: "comparator \<Rightarrow> jsobj list \<Rightarrow> jsobj \<Rightarrow> error + jsobj" where
  "bestTrial_forEach compare [] best = Inr best"
| "bestTrial_forEach compare (trial # rest) best =
     (case get_prop (obj_get trial ''result'') ''status'' of
        Inl e \<Rightarrow> Inl e
      | Inr st \<Rightarrow>
          if st = JStr STATUS_OK
          then (case compare (obj_get trial ''result'') (obj_get best ''result'') of
                  Inl e \<Rightarrow> Inl e
                | Inr better \<Rightarrow>
                    bestTrial_forEach compare rest (if better then trial else best))
          else bestTrial_forEach compare rest best)"

text \<open>
  \<open>bestTrial(compare)\<close>: \<open>best\<close> starts as \<open>this.trials[0]\<close>, which is \<open>undefined\<close>
  (\<open>None\<close>) on an empty view, where the loop has nothing to visit.
\<close>

definition bestTrial :: "Trials \<Rightarrow> comparator \<Rightarrow> error + jsobj option" where
  "bestTrial s compare =
     (case trials s of
        [] \<Rightarrow> Inr None
      | first # _ \<Rightarrow>
          (case bestTrial_forEach compare (trials s) first of
             Inl e \<Rightarrow> Inl e
           | Inr best \<Rightarrow> Inr (Some best)))"

definition argmin :: "(jsval \<Rightarrow> jsval \<Rightarrow> bool) \<Rightarrow> Trials \<Rightarrow> error + jsval" where
  "argmin other s =
     (case bestTrial s (compare_default other) of
        Inl e \<Rightarrow> Inl e
      | Inr best \<Rightarrow>
          Inr (case best of None \<Rightarrow> JUndefined | Some b \<Rightarrow> obj_get b ''args''))"

definition argmax :: "(jsval \<Rightarrow> jsval \<Rightarrow> bool) \<Rightarrow> Trials \<Rightarrow> error + jsval" where
  "argmax other s =
     (case bestTrial s (compare_argmax other) of
        Inl e \<Rightarrow> Inl e
      | Inr best \<Rightarrow>
          Inr (case best of None \<Rightarrow> JUndefined | Some b \<Rightarrow> obj_get b ''args''))"

section \<open>Expression evaluator\<close>

text \<open>
  The random state is an opaque value \<open>'r\<close>. A capability is a function-valued property
  of the evaluator: called with the remaining fields of the node and the random state, it
  throws or yields a value and leaves the random state changed.
\<close>

type_synonym 'r capability = "jsobj \<Rightarrow> 'r \<Rightarrow> error + (jsval \<times> 'r)"

text \<open>
  The second argument of \<open>eval\<close>, which the parameter list destructures as
  \<open>{ rng: rState }\<close>: no argument at all (destructuring throws a TypeError), or an object
  whose \<open>rng\<close> may be \<open>undefined\<close>.
\<close>

datatype 'r opts = NoOpts | Opts "'r option"

text \<open>The decimal name of an index, for the own keys of an array or a string.\<close>

fun digits :: "nat \<Rightarrow> string" where
  "digits n =
     (if n < 10 then [char_of (48 + n)]
      else digits (n div 10) @ [char_of (48 + n mod 10)])"

definition indexed :: "jsval list \<Rightarrow> jsobj" where
  "indexed xs = map (\<lambda>i. (digits i, xs ! i)) [0..<length xs]"

text \<open>
  \<open>const { name, ...rest } = expr\<close>: \<open>name\<close> is the property of that name
  (\<open>undefined\<close> on a scalar and on an array), \<open>rest\<close> the other own properties.
\<close>

fun name_of :: "jsval \<Rightarrow> jsval" where
  "name_of (JObj fs) = obj_get fs ''name''"
| "name_of v = JUndefined"

fun rest_of :: "jsval \<Rightarrow> jsobj" where
  "rest_of (JObj fs) = filter (\<lambda>kv. fst kv \<noteq> ''name'') fs"
| "rest_of (JArr xs) = indexed xs"
| "rest_of (JStr cs) = indexed (map (\<lambda>c. JStr [c]) cs)"
| "rest_of v = []"

text \<open>\<open>{ ...r, [key]: v }\<close>: \<open>key\<close> keeps its place if \<open>r\<close> has it, and comes last if not.\<close>

fun obj_set :: "jsobj \<Rightarrow> string \<Rightarrow> jsval \<Rightarrow> jsobj" where
  "obj_set [] key v = [(key, v)]"
| "obj_set ((k, w) # r) key v = (if k = key then (k, v) # r else (k, w) # obj_set r key v)"

text \<open>
  The body of \<open>eval\<close> below the parameter list, for a random state \<open>rng\<close> that is
  defined, as it is in every recursive call (\<open>this.eval(item, { rng })\<close>). \<open>this\<close>
  gives, for the value of \<open>name\<close>, the property \<open>this[name]\<close> when it is a function.
  \<open>eval_items\<close> is the \<open>map\<close> over an array and \<open>eval_keys\<close> the \<open>reduce\<close> over
  \<open>Object.keys(expr)\<close> with its accumulator \<open>r\<close>; each entry of an object is a key with
  \<open>expr[key]\<close>. One random state goes through all the calls in order.
\<close>

fun eval_node :: "(jsval \<Rightarrow> 'r capability option) \<Rightarrow> jsval \<Rightarrow> 'r \<Rightarrow> error + (jsval \<times> 'r)"
  and eval_items :: "(jsval \<Rightarrow> 'r capability option) \<Rightarrow> jsval list \<Rightarrow> 'r \<Rightarrow> error + (jsval list \<times> 'r)"
  and eval_keys :: "(jsval \<Rightarrow> 'r capability option) \<Rightarrow> jsobj \<Rightarrow> jsobj \<Rightarrow> 'r \<Rightarrow> error + (jsobj \<times> 'r)"
where
  "eval_node this JUndefined rng = Inr (JUndefined, rng)"
| "eval_node this JNull rng = Inr (JNull, rng)"
| "eval_node this (JArr items) rng =
     (case this (name_of (JArr items)) of
        Some space \<Rightarrow> space (rest_of (JArr items)) rng
      | None \<Rightarrow>
          (case eval_items this items rng of
             Inl e \<Rightarrow> Inl e
           | Inr (ys, rng') \<Rightarrow> Inr (JArr ys, rng')))"
| "eval_node this (JObj fs) rng =
     (case this (name_of (JObj fs)) of
        Some space \<Rightarrow> space (rest_of (JObj fs)) rng
      | None \<Rightarrow>
          (case eval_keys this fs [] rng of
             Inl e \<Rightarrow> Inl e
           | Inr (r, rng') \<Rightarrow> Inr (JObj r, rng')))"
| "eval_node this v rng =
     (case this (name_of v) of
        Some space \<Rightarrow> space (rest_of v) rng
      | None \<Rightarrow> Inr (v, rng))"
| "eval_items this [] rng = Inr ([], rng)"
| "eval_items this (item # items) rng =
     (case eval_node this item rng of
        Inl e \<Rightarrow> Inl e
      | Inr (y, rng') \<Rightarrow>
          (case eval_items this items rng' of
             Inl e \<Rightarrow> Inl e
           | Inr (ys, rng'') \<Rightarrow> Inr (y # ys, rng'')))"
| "eval_keys this [] r rng = Inr (r, rng)"
| "eval_keys this ((key, v) # fs) r rng =
     (case eval_node this v rng of
        Inl e \<Rightarrow> Inl e
      | Inr (y, rng') \<Rightarrow> eval_keys this fs (obj_set r key y) rng')"

text \<open>
  \<open>eval(expr, { rng: rState })\<close>: \<open>fresh\<close> is the state \<open>new RandomState()\<close> makes. The
  result is the value and the state the random state in use is left in.
\<close>

definition eval :: "(jsval \<Rightarrow> 'r capability option) \<Rightarrow> 'r \<Rightarrow> jsval \<Rightarrow> 'r opts \<Rightarrow> error + (jsval \<times> 'r)" where
  "eval this fresh e options =
     (case options of
        NoOpts \<Rightarrow> Inl TypeError
      | Opts rState \<Rightarrow>
          eval_node this e (case rState of None \<Rightarrow> fresh | Some rng \<Rightarrow> rng))"

text \<open>
  A tree without capability call: no node that \<open>eval\<close> reaches resolves to a function
  (\<open>eval\<close> returns \<open>undefined\<close> and \<open>null\<close> before looking anything up).
\<close>

fun capfree :: "(jsval \<Rightarrow> 'r capability option) \<Rightarrow> jsval \<Rightarrow> bool"
  and capfree_items :: "(jsval \<Rightarrow> 'r capability option) \<Rightarrow> jsval list \<Rightarrow> bool"
  and capfree_fields :: "(jsval \<Rightarrow> 'r capability option) \<Rightarrow> jsobj \<Rightarrow> bool"
where
  "capfree this JUndefined = True"
| "capfree this JNull = True"
| "capfree this (JArr items) = (this (name_of (JArr items)) = None \<and> capfree_items this items)"
| "capfree this (JObj fs) = (this (name_of (JObj fs)) = None \<and> capfree_fields this fs)"
| "capfree this v = (this (name_of v) = None)"
| "capfree_items this [] = True"
| "capfree_items this (item # items) = (capfree this item \<and> capfree_items this items)"
| "capfree_fields this [] = True"
| "capfree_fields this ((key, v) # fs) = (capfree this v \<and> capfree_fields this fs)"

text \<open>The keys of every object of a tree are distinct, as those of an object are.\<close>

fun distinct_keys :: "jsval \<Rightarrow> bool"
  and distinct_keys_items :: "jsval list \<Rightarrow> bool"
  and distinct_keys_fields :: "jsobj \<Rightarrow> bool"
where
  "distinct_keys (JArr items) = distinct_keys_items items"
| "distinct_keys (JObj fs) = (distinct (map fst fs) \<and> distinct_keys_fields fs)"
| "distinct_keys v = True"
| "distinct_keys_items [] = True"
| "distinct_keys_items (item # items) = (distinct_keys item \<and> distinct_keys_items items)"
| "distinct_keys_fields [] = True"
| "distinct_keys_fields ((key, v) # fs) = (distinct_keys v \<and> distinct_keys_fields fs)"

section \<open>Notions of the specification\<close>

text \<open>A finite number, in the words of the specification: a number that is neither NaN
  nor an infinity.\<close>

fun is_finite_number :: "jsval \<Rightarrow> bool" where
  "is_finite_number (JNum (Fin q)) = True"
| "is_finite_number v = False"

text \<open>The field \<open>k\<close> of a value that is neither \<open>undefined\<close> nor \<open>null\<close>.\<close>

definition field :: "jsval \<Rightarrow> string \<Rightarrow> jsval" where
  "field v k = (case v of JObj fs \<Rightarrow> obj_get fs k | _ \<Rightarrow> JUndefined)"

text \<open>An objective function that returns the same value on every call.\<close>

definition constant_domain :: "jsval \<Rightarrow> domain" where
  "constant_domain v = \<lparr>fn = (\<lambda>a p. Inr v), expr = JNull, params = JNull\<rparr>"

text \<open>The field \<open>k\<close> of the result of a trial document.\<close>

definition result_field :: "jsobj \<Rightarrow> string \<Rightarrow> jsval" where
  "result_field t k = field (obj_get t ''result'') k"

text \<open>The number a value is, when it is one.\<close>

fun num_of :: "jsval \<Rightarrow> jsnum" where
  "num_of (JNum n) = n"
| "num_of v = NaN"

text \<open>\<open>x <= y\<close> on numbers: false as soon as one of them is NaN.\<close>

fun num_le :: "jsnum \<Rightarrow> jsnum \<Rightarrow> bool" where
  "num_le NaN y = False"
| "num_le x NaN = False"
| "num_le x y = (\<not> num_lt y x)"

text \<open>What \<open>losses\<close> makes of one result, in the words of claim C10: the loss when it
  is truthy, the accuracy otherwise.\<close>

definition project_loss :: "jsval \<Rightarrow> jsval" where
  "project_loss r = (if truthy (field r ''loss'') then field r ''loss'' else field r ''accuracy'')"

section \<open>Example stores and documents\<close>

text \<open>A store under the experiment key \<open>A\<close> that holds a finished trial of \<open>A\<close>, one
  of \<open>B\<close>, and a trial of \<open>A\<close> in the ERROR state; its view has not been refreshed.\<close>

definition store_AB :: Trials where
  "store_AB =
     \<lparr>ids = [],
      dynamicTrials =
        [[(''id'', JNum (Fin 0)), (''state'', JNum (Fin 2)), (''expKey'', JStr ''A'')],
         [(''id'', JNum (Fin 1)), (''state'', JNum (Fin 2)), (''expKey'', JStr ''B'')],
         [(''id'', JNum (Fin 2)), (''state'', JNum (Fin 3)), (''expKey'', JStr ''A'')]],
      trials = [],
      expKey = Some ''A''\<rparr>"

text \<open>A document that lacks \<open>result\<close>, and a complete one of the experiment \<open>B\<close>.\<close>

definition doc_no_result :: jsobj where
  "doc_no_result =
     [(''id'', JNum (Fin 0)), (''args'', JObj [(''x'', JNum (Fin 1))]), (''state'', JNum (Fin 0)),
      (''book_time'', JNull), (''refresh_time'', JNull), (''expKey'', JNull)]"

definition doc_of_B :: jsobj where
  "doc_of_B =
     [(''state'', JNum (Fin 0)), (''id'', JNum (Fin 1)), (''result'', JObj [(''status'', JStr ''new'')]),
      (''args'', JObj [(''x'', JNum (Fin 1))]), (''expKey'', JStr ''B''),
      (''book_time'', JNull), (''refresh_time'', JNull)]"

text \<open>A view of one trial whose loss is 0 and whose accuracy is 0.9.\<close>

definition store_zero_loss :: Trials where
  "store_zero_loss =
     \<lparr>ids = [0],
      dynamicTrials = [],
      trials =
        [[(''state'', JNum (Fin 2)), (''id'', JNum (Fin 0)),
          (''result'', JObj [(''status'', JStr ''ok''), (''loss'', JNum (Fin 0)),
                             (''accuracy'', JNum (Fin (9 / 10)))]),
          (''args'', JStr ''a''), (''expKey'', JNull),
          (''book_time'', JNull), (''refresh_time'', JNull)]],
      expKey = None\<rparr>"

text \<open>A complete document of a store without experiment key.\<close>

definition doc_valid :: jsobj where
  "doc_valid =
     [(''state'', JNum (Fin 0)), (''id'', JNum (Fin 7)), (''result'', JObj [(''status'', JStr ''new'')]),
      (''args'', JObj [(''x'', JNum (Fin 1))]), (''expKey'', JNull),
      (''book_time'', JNull), (''refresh_time'', JNull)]"

text \<open>A store under the experiment key \<open>A\<close> whose only document is a new trial of \<open>A\<close>.\<close>

definition store_one_A :: Trials where
  "store_one_A =
     \<lparr>ids = [0],
      dynamicTrials =
        [[(''state'', JNum (Fin 0)), (''id'', JNum (Fin 0)),
          (''result'', JObj [(''status'', JStr ''new'')]),
          (''args'', JObj [(''x'', JNum (Fin 1))]), (''expKey'', JStr ''A''),
          (''book_time'', JNull), (''refresh_time'', JNull)]],
      trials = [],
      expKey = Some ''A''\<rparr>"

text \<open>The count claim C2 describes: the documents of the authoritative list whose
  \<open>expKey\<close> is the store's and whose state is one of the given states.\<close>

definition count_matching :: "Trials \<Rightarrow> jsval list \<Rightarrow> nat" where
  "count_matching s states =
     length (filter (\<lambda>trial. obj_get trial ''expKey'' = key_val (expKey s)
                          \<and> obj_get trial ''state'' \<in> set states)
               (dynamicTrials s))"

text \<open>A failed trial, a finished one with loss 0.5, and the views made of them.\<close>

definition trial_failed :: jsobj where
  "trial_failed =
     [(''state'', JNum (Fin 2)), (''id'', JNum (Fin 0)),
      (''result'', JObj [(''status'', JStr ''fail'')]),
      (''args'', JStr ''a''), (''expKey'', JNull),
      (''book_time'', JNull), (''refresh_time'', JNull)]"

definition trial_ok_half :: jsobj where
  "trial_ok_half =
     [(''state'', JNum (Fin 2)), (''id'', JNum (Fin 1)),
      (''result'', JObj [(''status'', JStr ''ok''), (''loss'', JNum (Fin (1 / 2)))]),
      (''args'', JStr ''b''), (''expKey'', JNull),
      (''book_time'', JNull), (''refresh_time'', JNull)]"

definition store_of_view :: "jsobj list \<Rightarrow> Trials" where
  "store_of_view ts = \<lparr>ids = [], dynamicTrials = ts, trials = ts, expKey = None\<rparr>"

text \<open>The scenario of the specification: two finished trials with the losses 0.5 and
  0.2 are built, inserted, and the view refreshed. And the same with the accuracies 0.7
  and 0.9 and no loss.\<close>

definition store_two_losses :: Trials where
  "store_two_losses =
     refresh (snd (insertTrialDocs (new_Trials None True)
        (newTrialDocs (new_Trials None True) [JNum (Fin 0), JNum (Fin 1)]
           [JObj [(''loss'', JNum (Fin (1 / 2))), (''status'', JStr ''ok'')],
            JObj [(''loss'', JNum (Fin (1 / 5))), (''status'', JStr ''ok'')]]
           [JStr ''first'', JStr ''second''])))"

definition store_two_accuracies :: Trials where
  "store_two_accuracies =
     refresh (snd (insertTrialDocs (new_Trials None True)
        (newTrialDocs (new_Trials None True) [JNum (Fin 0), JNum (Fin 1)]
           [JObj [(''accuracy'', JNum (Fin (7 / 10))), (''status'', JStr ''ok'')],
            JObj [(''accuracy'', JNum (Fin (9 / 10))), (''status'', JStr ''ok'')]]
           [JStr ''first'', JStr ''second''])))"

text \<open>Three finished trials with the losses NaN, 1 and -Infinity, built, inserted and
  refreshed in that order; and the same three with the NaN in the second place.\<close>

definition store_nan_first :: Trials where
  "store_nan_first =
     refresh (snd (insertTrialDocs (new_Trials None True)
        (newTrialDocs (new_Trials None True) [JNum (Fin 0), JNum (Fin 1), JNum (Fin 2)]
           [JObj [(''status'', JStr ''ok''), (''loss'', JNum NaN)],
            JObj [(''status'', JStr ''ok''), (''loss'', JNum (Fin 1))],
            JObj [(''status'', JStr ''ok''), (''loss'', JNum NegInf)]]
           [JStr ''a'', JStr ''b'', JStr ''c''])))"

definition store_nan_second :: Trials where
  "store_nan_second =
     refresh (snd (insertTrialDocs (new_Trials None True)
        (newTrialDocs (new_Trials None True) [JNum (Fin 0), JNum (Fin 1), JNum (Fin 2)]
           [JObj [(''status'', JStr ''ok''), (''loss'', JNum (Fin 1))],
            JObj [(''status'', JStr ''ok''), (''loss'', JNum NaN)],
            JObj [(''status'', JStr ''ok''), (''loss'', JNum NegInf)]]
           [JStr ''b'', JStr ''a'', JStr ''c''])))"

text \<open>An evaluator with one capability, \<open>uniform\<close>, over a random state that counts the
  draws; a search space that does not call it, and one that does.\<close>

definition space_uniform :: "jsval \<Rightarrow> nat capability option" where
  "space_uniform n =
     (if n = JStr ''uniform''
      then Some (\<lambda>rest rng. Inr (JNum (Fin (of_nat rng)), Suc rng))
      else None)"

definition tree_plain :: jsval where
  "tree_plain =
     JObj [(''lr'', JNum (Fin (1 / 100))),
           (''layers'', JArr [JNum (Fin 1), JStr ''relu'', JNull]),
           (''opt'', JObj [(''kind'', JStr ''sgd''), (''nesterov'', JBool True)])]"

definition tree_sampled :: jsval where
  "tree_sampled =
     JObj [(''lr'', JObj [(''name'', JStr ''uniform''), (''low'', JNum (Fin 0))]),
           (''layers'', JArr [JObj [(''name'', JStr ''uniform'')], JStr ''relu''])]"

section \<open>Properties of the language model\<close>

lemma newResult_status: "get_prop newResult ''status'' = Inr (JStr ''new'')"
  by (simp add: newResult_def obj_get_def STATUS_NEW_def)


lemma get_prop_field: "v \<noteq> JUndefined \<Longrightarrow> v \<noteq> JNull \<Longrightarrow> get_prop v k = Inr (field v k)"
  by (cases v) (simp_all add: field_def)

lemma strict_eq_number: "n \<noteq> NaN \<Longrightarrow> strict_eq v (JNum n) = (v = JNum n)"
proof (cases v)
  case (JNum m)
  assume "n \<noteq> NaN"
  with JNum show ?thesis by (cases m; cases n) simp_all
qed (cases n; simp)+

lemma strict_eq_primitive:
  assumes "c = JUndefined \<or> c = JNull \<or> (\<exists>b. c = JBool b) \<or> (\<exists>s. c = JStr s)
             \<or> (\<exists>n. c = JNum n \<and> n \<noteq> NaN)"
  shows "strict_eq v c = (v = c)"
proof (cases "\<exists>n. c = JNum n")
  case True
  with assms show ?thesis by (auto simp: strict_eq_number)
next
  case False
  with assms have c: "c = JUndefined \<or> c = JNull \<or> (\<exists>b. c = JBool b) \<or> (\<exists>s. c = JStr s)"
    by blast
  show ?thesis
  proof (cases v)
    case (JNum m)
    with c show ?thesis by (cases m) auto
  qed (use c in auto)
qed

lemma strict_eq_JStr: "strict_eq (JStr s) v = (v = JStr s)"
proof (cases v)
  case (JNum n)
  then show ?thesis by (cases n) simp_all
qed auto

lemma indexOf_STATUS:
  "(indexOf STATUS_STRINGS st < 0) =
     (st \<notin> {JStr ''new'', JStr ''running'', JStr ''suspended'', JStr ''ok'', JStr ''fail''})"
  by (auto simp: STATUS_STRINGS_def Let_def strict_eq_JStr)

section \<open>Domain adapter: the result of \<open>evaluate\<close>\<close>

lemma not_self_loss: "v \<noteq> JObj [(''loss'', v), (''status'', w)]"
proof
  assume "v = JObj [(''loss'', v), (''status'', w)]"
  then have "size v = size (JObj [(''loss'', v), (''status'', w)])" by simp
  then show False by simp
qed

lemma evaluate_rval_number:
  "n \<noteq> NaN \<Longrightarrow>
   evaluate_rval (JNum n) = Inr (JObj [(''loss'', JNum n), (''status'', JStr STATUS_OK)])"
  by (simp add: evaluate_rval_def isNaN_def)

lemma evaluate_rval_NaN: "evaluate_rval (JNum NaN) = Inl (InvalidStatus JUndefined)"
  by (simp add: evaluate_rval_def isNaN_def indexOf_STATUS)

lemma evaluate_rval_structured:
  assumes "\<not> is_number v"
  shows "evaluate_rval v =
     (if v = JUndefined then Inl NoLossValue
      else if v = JNull then Inl TypeError
      else if field v ''status'' \<notin>
                {JStr ''new'', JStr ''running'', JStr ''suspended'', JStr ''ok'', JStr ''fail''}
        then Inl (InvalidStatus (field v ''status''))
      else if field v ''status'' = JStr ''ok'' \<and> field v ''loss'' = JUndefined
                \<and> field v ''accuracy'' = JUndefined
        then Inl InvalidLossAccuracy
      else Inr v)"
  using assms
  by (cases v) (simp_all add: evaluate_rval_def isNaN_def indexOf_STATUS field_def STATUS_OK_def)

lemma evaluate_constant: "evaluate (constant_domain v) a = evaluate_rval v"
  by (simp add: evaluate_def constant_domain_def)

text \<open>
  C3, as the claim states it, fails: the claim has an infinite return value validated as
  a structured result, and the code wraps it as a loss, since its test is
  \<open>typeof rval === 'number' && !Number.isNaN(rval)\<close>.
\<close>

theorem evaluate_wraps_infinity:
  "evaluate (constant_domain (JNum PosInf)) JNull
     = Inr (JObj [(''loss'', JNum PosInf), (''status'', JStr ''ok'')])
   \<and> \<not> is_finite_number (JNum PosInf)"
  by (simp add: evaluate_constant evaluate_rval_number STATUS_OK_def)

text \<open>
  C3, amended: when the objective function returns \<open>v\<close>, \<open>evaluate\<close> returns
  \<open>{ loss: v, status: 'ok' }\<close> if and only if \<open>v\<close> is a number other than NaN (the
  infinities included); NaN alone goes to the validation of structured results, where it
  fails with the invalid-status error, having no \<open>status\<close>.
\<close>

theorem evaluate_wraps_iff_number_not_NaN:
  assumes "fn d a (params d) = Inr v"
  shows "(evaluate d a = Inr (JObj [(''loss'', v), (''status'', JStr STATUS_OK)]))
           = (\<exists>n. v = JNum n \<and> n \<noteq> NaN)
         \<and> (v = JNum NaN \<longrightarrow> evaluate d a = Inl (InvalidStatus JUndefined))"
proof -
  have ev: "evaluate d a = evaluate_rval v"
    using assms by (simp add: evaluate_def)
  show ?thesis
  proof (cases "is_number v")
    case True
    then obtain n where n: "v = JNum n" by (cases v) auto
    show ?thesis
    proof (cases "n = NaN")
      case True
      with n ev show ?thesis by (simp add: evaluate_rval_NaN)
    next
      case False
      with n ev show ?thesis by (simp add: evaluate_rval_number)
    qed
  next
    case False
    then have nn: "\<not> (\<exists>n. v = JNum n \<and> n \<noteq> NaN)" by auto
    have "evaluate_rval v \<noteq> Inr (JObj [(''loss'', v), (''status'', JStr STATUS_OK)])"
      using not_self_loss[of v "JStr STATUS_OK"]
      by (simp add: evaluate_rval_structured[OF False])
    with ev nn False show ?thesis by auto
  qed
qed

theorem evaluate_wraps_iff_number_not_NaN_witness:
  "fn (constant_domain (JNum (Fin (157 / 50)))) JNull (params (constant_domain (JNum (Fin (157 / 50)))))
     = Inr (JNum (Fin (157 / 50)))
   \<and> evaluate (constant_domain (JNum (Fin (157 / 50)))) JNull
       = Inr (JObj [(''loss'', JNum (Fin (157 / 50))), (''status'', JStr ''ok'')])"
proof -
  have h: "fn (constant_domain (JNum (Fin (157 / 50)))) JNull
             (params (constant_domain (JNum (Fin (157 / 50))))) = Inr (JNum (Fin (157 / 50)))"
    by (simp add: constant_domain_def)
  show ?thesis
    using h evaluate_wraps_iff_number_not_NaN[OF h] by (simp add: STATUS_OK_def)
qed

text \<open>
  C4, as the claim states it, fails on \<open>null\<close>: the code tests \<open>result === undefined\<close>
  only, and a \<open>null\<close> reaches the destructuring, which throws the TypeError of the
  language and not the invalid-return error.
\<close>

theorem evaluate_null_is_TypeError:
  "evaluate (constant_domain JNull) JNull = Inl TypeError
   \<and> evaluate (constant_domain JNull) JNull \<noteq> Inl NoLossValue"
  by (simp add: evaluate_constant evaluate_rval_def isNaN_def)

text \<open>
  C4, amended: when the objective function returns a value \<open>v\<close> that is not a number,
  \<open>evaluate\<close> fails with the invalid-return error if \<open>v\<close> is \<open>undefined\<close> (on \<open>null\<close>
  it fails with a TypeError); fails with the invalid-status error if the \<open>status\<close> of
  \<open>v\<close> is none of the five status strings; fails with the incomplete-result error if
  the status is \<open>ok\<close> and both \<open>loss\<close> and \<open>accuracy\<close> are \<open>undefined\<close>; and
  returns \<open>v\<close> itself otherwise.
\<close>

theorem evaluate_structured_result:
  assumes "fn d a (params d) = Inr v" and "\<not> is_number v"
  shows "evaluate d a =
     (if v = JUndefined then Inl NoLossValue
      else if v = JNull then Inl TypeError
      else if field v ''status'' \<notin>
                {JStr ''new'', JStr ''running'', JStr ''suspended'', JStr ''ok'', JStr ''fail''}
        then Inl (InvalidStatus (field v ''status''))
      else if field v ''status'' = JStr ''ok'' \<and> field v ''loss'' = JUndefined
                \<and> field v ''accuracy'' = JUndefined
        then Inl InvalidLossAccuracy
      else Inr v)"
proof -
  have "evaluate d a = evaluate_rval v"
    using assms(1) by (simp add: evaluate_def)
  then show ?thesis
    by (simp only: evaluate_rval_structured[OF assms(2)])
qed

theorem evaluate_structured_result_witness:
  "fn (constant_domain (JObj [(''status'', JStr ''bogus'')])) JNull
      (params (constant_domain (JObj [(''status'', JStr ''bogus'')])))
     = Inr (JObj [(''status'', JStr ''bogus'')])
   \<and> \<not> is_number (JObj [(''status'', JStr ''bogus'')])
   \<and> evaluate (constant_domain (JObj [(''status'', JStr ''bogus'')])) JNull
       = Inl (InvalidStatus (JStr ''bogus''))"
proof -
  have h: "fn (constant_domain (JObj [(''status'', JStr ''bogus'')])) JNull
             (params (constant_domain (JObj [(''status'', JStr ''bogus'')])))
           = Inr (JObj [(''status'', JStr ''bogus'')])"
    by (simp add: constant_domain_def)
  have n: "\<not> is_number (JObj [(''status'', JStr ''bogus'')])" by simp
  show ?thesis
    using h n evaluate_structured_result[OF h n] by (simp add: field_def obj_get_def)
qed

section \<open>Trial store: inserting documents\<close>

lemma find_first:
  "(\<forall>j\<in>set pre. \<not> P j) \<Longrightarrow> P k \<Longrightarrow> find P (pre @ k # post) = Some k"
  by (induction pre) auto

lemma find_none: "(\<forall>j\<in>set xs. \<not> P j) \<Longrightarrow> find P xs = None"
  by (induction xs) auto

lemma assertValidTrial_missing:
  assumes "trial \<noteq> []"
    and "[''id'', ''result'', ''args'', ''state'', ''book_time'', ''refresh_time''] = pre @ k # post"
    and "\<forall>j\<in>set pre. obj_get trial j \<noteq> JUndefined"
    and "obj_get trial k = JUndefined"
  shows "assertValidTrial s trial = Inl (MissingKey k)"
proof -
  have "find (\<lambda>key. obj_get trial key = JUndefined) TRIAL_KEYS = Some k"
    unfolding TRIAL_KEYS_def assms(2) using assms(3,4) by (intro find_first) auto
  with assms(1) show ?thesis by (simp add: assertValidTrial_def)
qed

lemma assertValidTrial_expKey:
  assumes "trial \<noteq> []"
    and "\<forall>j\<in>set [''id'', ''result'', ''args'', ''state'', ''book_time'', ''refresh_time''].
           obj_get trial j \<noteq> JUndefined"
    and "obj_get trial ''expKey'' \<noteq> key_val (expKey s)"
  shows "assertValidTrial s trial
           = Inl (WrongExpKey (obj_get trial ''expKey'') (key_val (expKey s)))"
proof -
  have "find (\<lambda>key. obj_get trial key = JUndefined) TRIAL_KEYS = None"
    unfolding TRIAL_KEYS_def using assms(2) by (intro find_none) auto
  with assms(1,3) show ?thesis by (simp add: assertValidTrial_def)
qed

lemma assertValidTrial_Inr: "assertValidTrial s trial = Inr d \<Longrightarrow> d = trial"
  by (auto simp: assertValidTrial_def split: if_splits option.splits)

lemma insertTrialDoc_fst:
  "fst (insertTrialDoc s trial) =
     (case assertValidTrial s trial of Inl e \<Rightarrow> Inl e | Inr d \<Rightarrow> Inr (obj_get d ''id''))"
  by (simp add: insertTrialDoc_def internalInsertTrialDocs_def split: sum.splits)

lemma insertTrialDoc_fail:
  "fst (insertTrialDoc s trial) = Inl e \<Longrightarrow> insertTrialDoc s trial = (Inl e, s)"
  by (auto simp: insertTrialDoc_def internalInsertTrialDocs_def split: sum.splits)

lemma insertTrialDoc_appends:
  "fst (insertTrialDoc s trial) = Inr v \<Longrightarrow>
   dynamicTrials (snd (insertTrialDoc s trial)) = dynamicTrials s @ [trial]"
  by (auto simp: insertTrialDoc_def internalInsertTrialDocs_def
      dest: assertValidTrial_Inr split: sum.splits)

lemma assertValidTrials_first_failure:
  assumes "\<forall>g\<in>set good. \<exists>d. assertValidTrial s g = Inr d"
    and "assertValidTrial s t = Inl e"
  shows "assertValidTrials s (good @ t # later) = Inl e"
  using assms by (induction good) (auto split: sum.splits)

lemma insertTrialDocs_fail:
  "fst (insertTrialDocs s ts) = Inl e \<Longrightarrow> insertTrialDocs s ts = (Inl e, s)"
  by (auto simp: insertTrialDocs_def internalInsertTrialDocs_def split: sum.splits)

lemma new_Trials_null:
  "new_Trials None True = \<lparr>ids = [], dynamicTrials = [], trials = [], expKey = None\<rparr>"
  by (simp add: new_Trials_def refresh_def)

lemma insert_doc_valid:
  "insertTrialDoc (new_Trials None True) doc_valid
     = (Inr (JNum (Fin 7)), (new_Trials None True)\<lparr>dynamicTrials := [doc_valid]\<rparr>)"
  by (simp add: new_Trials_null insertTrialDoc_def assertValidTrial_def
      internalInsertTrialDocs_def TRIAL_KEYS_def obj_get_def key_val_def doc_valid_def)

text \<open>
  C5, as the claim states it, fails on the document with no key at all: all six fields
  are absent, and the error is not the missing-field error naming \<open>id\<close> but the one of
  the guard \<open>Object.keys(trial).length <= 0\<close> that comes first.
\<close>

theorem insert_empty_document_not_missing_field:
  "obj_get [] ''id'' = JUndefined
   \<and> insertTrialDoc (new_Trials None True) [] = (Inl NotAnObject, new_Trials None True)
   \<and> fst (insertTrialDoc (new_Trials None True) []) \<noteq> Inl (MissingKey ''id'')"
  by (simp add: insertTrialDoc_def assertValidTrial_def obj_get_def)

text \<open>
  C5, amended: a document with at least one key of its own and one of the six required
  fields absent is refused with the missing-field error naming the first absent field, in
  the order \<open>id\<close>, \<open>result\<close>, \<open>args\<close>, \<open>state\<close>, \<open>book_time\<close>,
  \<open>refresh_time\<close>; a document with all six fields and an \<open>expKey\<close> other than the
  store's is refused with the expkey-mismatch error; a document with no key at all is
  refused with the error "trial should be an object". A batch is refused with the error
  of its first refused document. Whenever \<open>insertTrialDoc\<close> or \<open>insertTrialDocs\<close>
  fails, the store, and so its authoritative list, is as it was.
\<close>

theorem insert_refuses_malformed:
  "(trial \<noteq> []
      \<and> [''id'', ''result'', ''args'', ''state'', ''book_time'', ''refresh_time''] = pre @ k # post
      \<and> (\<forall>j\<in>set pre. obj_get trial j \<noteq> JUndefined) \<and> obj_get trial k = JUndefined
     \<longrightarrow> insertTrialDoc s trial = (Inl (MissingKey k), s))
   \<and> (trial \<noteq> []
      \<and> (\<forall>j\<in>set [''id'', ''result'', ''args'', ''state'', ''book_time'', ''refresh_time''].
             obj_get trial j \<noteq> JUndefined)
      \<and> obj_get trial ''expKey'' \<noteq> key_val (expKey s)
     \<longrightarrow> insertTrialDoc s trial
          = (Inl (WrongExpKey (obj_get trial ''expKey'') (key_val (expKey s))), s))
   \<and> (trial = [] \<longrightarrow> insertTrialDoc s trial = (Inl NotAnObject, s))
   \<and> (fst (insertTrialDoc s trial) = Inl e
     \<longrightarrow> dynamicTrials (snd (insertTrialDoc s trial)) = dynamicTrials s)
   \<and> ((\<forall>g\<in>set good. \<exists>v. fst (insertTrialDoc s g) = Inr v)
      \<and> fst (insertTrialDoc s trial) = Inl e
     \<longrightarrow> insertTrialDocs s (good @ trial # later) = (Inl e, s))
   \<and> (fst (insertTrialDocs s ts) = Inl e
     \<longrightarrow> dynamicTrials (snd (insertTrialDocs s ts)) = dynamicTrials s)"
proof (intro conjI impI)
  assume "trial \<noteq> []
      \<and> [''id'', ''result'', ''args'', ''state'', ''book_time'', ''refresh_time''] = pre @ k # post
      \<and> (\<forall>j\<in>set pre. obj_get trial j \<noteq> JUndefined) \<and> obj_get trial k = JUndefined"
  then have "assertValidTrial s trial = Inl (MissingKey k)"
    using assertValidTrial_missing by blast
  then show "insertTrialDoc s trial = (Inl (MissingKey k), s)"
    by (simp add: insertTrialDoc_def)
next
  assume "trial \<noteq> []
      \<and> (\<forall>j\<in>set [''id'', ''result'', ''args'', ''state'', ''book_time'', ''refresh_time''].
             obj_get trial j \<noteq> JUndefined)
      \<and> obj_get trial ''expKey'' \<noteq> key_val (expKey s)"
  then have "assertValidTrial s trial
               = Inl (WrongExpKey (obj_get trial ''expKey'') (key_val (expKey s)))"
    using assertValidTrial_expKey by blast
  then show "insertTrialDoc s trial
          = (Inl (WrongExpKey (obj_get trial ''expKey'') (key_val (expKey s))), s)"
    by (simp add: insertTrialDoc_def)
next
  assume "trial = []"
  then show "insertTrialDoc s trial = (Inl NotAnObject, s)"
    by (simp add: insertTrialDoc_def assertValidTrial_def)
next
  assume "fst (insertTrialDoc s trial) = Inl e"
  then show "dynamicTrials (snd (insertTrialDoc s trial)) = dynamicTrials s"
    by (simp add: insertTrialDoc_fail)
next
  assume a: "(\<forall>g\<in>set good. \<exists>v. fst (insertTrialDoc s g) = Inr v)
      \<and> fst (insertTrialDoc s trial) = Inl e"
  have g: "\<forall>g\<in>set good. \<exists>d. assertValidTrial s g = Inr d"
  proof
    fix g assume "g \<in> set good"
    with a obtain v where "fst (insertTrialDoc s g) = Inr v" by blast
    then show "\<exists>d. assertValidTrial s g = Inr d"
      by (cases "assertValidTrial s g") (simp_all add: insertTrialDoc_fst)
  qed
  have t: "assertValidTrial s trial = Inl e"
    using a by (auto simp: insertTrialDoc_fst split: sum.splits)
  show "insertTrialDocs s (good @ trial # later) = (Inl e, s)"
    by (simp add: insertTrialDocs_def assertValidTrials_first_failure[OF g t])
next
  assume "fst (insertTrialDocs s ts) = Inl e"
  then show "dynamicTrials (snd (insertTrialDocs s ts)) = dynamicTrials s"
    by (simp add: insertTrialDocs_fail)
qed

theorem insert_refuses_malformed_witness:
  "insertTrialDoc (new_Trials None True) doc_no_result
     = (Inl (MissingKey ''result''), new_Trials None True)
   \<and> insertTrialDoc (new_Trials None True) doc_of_B
     = (Inl (WrongExpKey (JStr ''B'') JNull), new_Trials None True)
   \<and> insertTrialDocs (new_Trials None True) [doc_valid, doc_no_result, doc_of_B]
     = (Inl (MissingKey ''result''), new_Trials None True)
   \<and> dynamicTrials (snd (insertTrialDocs (new_Trials None True)
                            [doc_valid, doc_no_result, doc_of_B])) = []"
proof -
  let ?s = "new_Trials None True"
  have a: "insertTrialDoc ?s doc_no_result = (Inl (MissingKey ''result''), ?s)"
    using insert_refuses_malformed[of doc_no_result "[''id'']" "''result''"
        "[''args'', ''state'', ''book_time'', ''refresh_time'']" ?s]
    by (simp add: doc_no_result_def obj_get_def)
  have b: "insertTrialDoc ?s doc_of_B = (Inl (WrongExpKey (JStr ''B'') JNull), ?s)"
    using insert_refuses_malformed[of doc_of_B _ _ _ ?s]
    by (simp add: doc_of_B_def obj_get_def key_val_def new_Trials_null)
  have c: "insertTrialDocs ?s ([doc_valid] @ doc_no_result # [doc_of_B])
             = (Inl (MissingKey ''result''), ?s)"
    using insert_refuses_malformed[of doc_no_result _ _ _ ?s "MissingKey ''result''"
        "[doc_valid]" "[doc_of_B]"]
    by (simp add: a insert_doc_valid)
  have d: "dynamicTrials (snd (insertTrialDocs ?s ([doc_valid] @ doc_no_result # [doc_of_B])))
             = dynamicTrials ?s"
    using insert_refuses_malformed[of _ _ _ _ ?s "MissingKey ''result''" _ _
        "[doc_valid] @ doc_no_result # [doc_of_B]"] c
    by simp
  from a b c d show ?thesis by (simp add: new_Trials_null)
qed

section \<open>Trial store: the derived view\<close>

text \<open>
  C6: after \<open>refresh\<close> the view is the authoritative list, in its order, without the
  documents in the ERROR state and, under an experiment key, without the documents of
  another \<open>expKey\<close>; no document of the view is in the ERROR state; the authoritative
  list is as it was.
\<close>

theorem refresh_view:
  "trials (refresh s) =
     filter (\<lambda>trial. obj_get trial ''state'' \<noteq> JNum (Fin 3)
                \<and> (\<forall>k. expKey s = Some k \<longrightarrow> obj_get trial ''expKey'' = JStr k))
       (dynamicTrials s)
   \<and> (\<forall>trial \<in> set (trials (refresh s)). obj_get trial ''state'' \<noteq> JNum (Fin 3))
   \<and> dynamicTrials (refresh s) = dynamicTrials s"
  by (cases "expKey s") (auto simp: refresh_def JOB_STATE_ERROR_def key_val_def)

theorem refresh_view_witness:
  "trials (refresh store_AB)
     = [[(''id'', JNum (Fin 0)), (''state'', JNum (Fin 2)), (''expKey'', JStr ''A'')]]"
  using refresh_view[of store_AB] by (simp add: store_AB_def obj_get_def)

section \<open>Trial store: reserving ids\<close>

lemma range_js_upt: "range_js a b = [a..<b]"
  by (cases "a \<le> b") (simp_all add: range_js_def map_add_upt)

text \<open>
  C7: \<open>newTrialIds(n)\<close> returns the range from the number \<open>k\<close> of ids reserved so far
  to \<open>k + n\<close>, a following \<open>newTrialIds(m)\<close> the range from \<open>k + n\<close> to
  \<open>k + n + m\<close>, and the two have no element in common; a \<open>refresh\<close> between the two
  calls changes nothing of this when the experiment key is \<open>null\<close>.
\<close>

theorem newTrialIds_twice:
  "fst (newTrialIds s n) = [length (ids s)..<length (ids s) + n]
   \<and> fst (newTrialIds (snd (newTrialIds s n)) m)
       = [length (ids s) + n..<length (ids s) + n + m]
   \<and> set (fst (newTrialIds s n)) \<inter> set (fst (newTrialIds (snd (newTrialIds s n)) m)) = {}
   \<and> (expKey s = None \<longrightarrow>
        fst (newTrialIds (refresh (snd (newTrialIds s n))) m)
          = [length (ids s) + n..<length (ids s) + n + m])"
  by (auto simp: newTrialIds_def Let_def range_js_upt refresh_def)

theorem newTrialIds_twice_witness:
  "fst (newTrialIds (new_Trials None True) 2) = [0, 1]
   \<and> fst (newTrialIds (snd (newTrialIds (new_Trials None True) 2)) 3) = [2, 3, 4]
   \<and> expKey (new_Trials None True) = None
   \<and> fst (newTrialIds (refresh (snd (newTrialIds (new_Trials None True) 2))) 3) = [2, 3, 4]"
  using newTrialIds_twice[of "new_Trials None True" 2 3]
  by (simp add: new_Trials_null upt_rec)

text \<open>Under an experiment key a \<open>refresh\<close> between the two calls empties the reserved
  ids, and the second range starts at 0 again.\<close>

lemma newTrialIds_after_keyed_refresh:
  "fst (newTrialIds (refresh (snd (newTrialIds (new_Trials (Some ''A'') True) 2))) 3) = [0, 1, 2]"
  by (simp add: new_Trials_def newTrialIds_def Let_def range_js_upt refresh_def upt_rec)

section \<open>Trial store: the projections of the view\<close>

lemma map_err_total:
  "(\<forall>x\<in>set xs. f x = Inr (g x)) \<Longrightarrow> map_err f xs = Inr (map g xs)"
  by (induction xs) auto

text \<open>
  C10: on a view whose results are all present, \<open>losses\<close> projects each result to its
  loss when the loss is truthy and to its accuracy otherwise; a result whose loss is 0 is
  projected to its accuracy (\<open>undefined\<close> when it has none), and a result is projected to
  its loss only when the loss is truthy (or is the accuracy as well).
\<close>

theorem losses_projects_falsy_loss_to_accuracy:
  assumes "\<forall>r\<in>set (results s). r \<noteq> JUndefined \<and> r \<noteq> JNull"
  shows "losses s = Inr (map project_loss (results s))
     \<and> (\<forall>r\<in>set (results s). field r ''loss'' = JNum (Fin 0)
            \<longrightarrow> project_loss r = field r ''accuracy'')
     \<and> (\<forall>r\<in>set (results s). project_loss r = field r ''loss''
            \<longrightarrow> truthy (field r ''loss'') \<or> field r ''loss'' = field r ''accuracy'')"
proof -
  have "losses s = Inr (map project_loss (results s))"
    unfolding losses_def
    by (rule map_err_total) (use assms in \<open>auto simp: get_prop_field project_loss_def\<close>)
  then show ?thesis by (auto simp: project_loss_def)
qed

theorem losses_projects_falsy_loss_to_accuracy_witness:
  "results store_zero_loss
     = [JObj [(''status'', JStr ''ok''), (''loss'', JNum (Fin 0)), (''accuracy'', JNum (Fin (9 / 10)))]]
   \<and> losses store_zero_loss = Inr [JNum (Fin (9 / 10))]"
proof -
  have r: "results store_zero_loss
     = [JObj [(''status'', JStr ''ok''), (''loss'', JNum (Fin 0)), (''accuracy'', JNum (Fin (9 / 10)))]]"
    by (simp add: results_def store_zero_loss_def obj_get_def)
  then have h: "\<forall>r\<in>set (results store_zero_loss). r \<noteq> JUndefined \<and> r \<noteq> JNull"
    by simp
  show ?thesis
    using losses_projects_falsy_loss_to_accuracy[OF h] r
    by (simp add: project_loss_def field_def obj_get_def)
qed

section \<open>Trial store: counting by state\<close>

lemma filter_err_total:
  "(\<forall>x\<in>set xs. p x = Inr (q x)) \<Longrightarrow> filter_err p xs = Inr (filter q xs)"
  by (induction xs) auto

lemma strict_eq_JUndefined: "strict_eq x JUndefined = (x = JUndefined)"
proof (cases x)
  case (JNum n)
  then show ?thesis by (cases n) simp_all
qed auto

lemma indexOf_found_iff: "(indexOf xs v \<ge> 0) = (\<exists>x\<in>set xs. strict_eq x v)"
  by (induction xs) (auto simp: Let_def)

text \<open>
  Under an experiment key \<open>countByStateUnsynced\<close> counts booleans, whose \<open>state\<close> is
  \<open>undefined\<close>: it returns 0 whatever the documents are, unless \<open>undefined\<close> is
  among the states asked for.
\<close>

lemma countByStateUnsynced_keyed:
  assumes "expKey s \<noteq> None"
    and "JUndefined \<notin> set (case arg of JArr xs \<Rightarrow> xs | _ \<Rightarrow> [arg])"
  shows "countByStateUnsynced s arg = Inr 0"
proof -
  let ?v = "case arg of JArr xs \<Rightarrow> xs | _ \<Rightarrow> [arg]"
  let ?bs = "map (\<lambda>trial. JBool (obj_get trial ''expKey'' = key_val (expKey s))) (dynamicTrials s)"
  have "\<not> (indexOf ?v JUndefined \<ge> 0)"
    using assms(2) by (auto simp: indexOf_found_iff strict_eq_JUndefined)
  then have "filter_err
               (\<lambda>doc. case get_prop doc ''state'' of
                         Inl e \<Rightarrow> Inl e
                       | Inr st \<Rightarrow> Inr (indexOf ?v st \<ge> 0)) ?bs
             = Inr (filter (\<lambda>_. False) ?bs)"
    by (intro filter_err_total) auto
  then show ?thesis
    using assms(1) by (simp add: countByStateUnsynced_def countByStateSynced_def Let_def)
qed

text \<open>
  C2, on a store whose experiment key is \<open>A\<close> and whose authoritative list holds one
  document of \<open>A\<close> in the state NEW: one document matches the count the claim describes,
  and \<open>countByStateUnsynced([JOB_STATE_NEW])\<close> returns 0. The documents of the store's
  key are not kept (\<open>filter\<close>) but mapped (\<open>map\<close>) to booleans.
\<close>

theorem countByStateUnsynced_counts_nothing:
  "countByStateUnsynced store_one_A (JArr [JOB_STATE_NEW]) = Inr 0
   \<and> count_matching store_one_A [JOB_STATE_NEW] = 1"
  by (simp add: countByStateUnsynced_def countByStateSynced_def count_matching_def
      store_one_A_def obj_get_def key_val_def Let_def JOB_STATE_NEW_def)

section \<open>Trial store: the best trial\<close>

text \<open>
  C1, on a view that starts with a failed trial: \<open>best\<close> starts as the first document
  of the view whatever its status, and no finished trial is better than a result without
  loss (\<open>0.5 < undefined\<close> is false). \<open>bestTrial\<close> returns the failed trial, and
  \<open>argmin\<close> and \<open>argmax\<close> its \<open>args\<close>, with a finished trial in the view and
  without one.
\<close>

theorem bestTrial_returns_failed_first_trial:
  "bestTrial (store_of_view [trial_failed, trial_ok_half]) (compare_default other)
     = Inr (Some trial_failed)
   \<and> get_prop (obj_get trial_failed ''result'') ''status'' = Inr (JStr ''fail'')
   \<and> get_prop (obj_get trial_ok_half ''result'') ''status'' = Inr (JStr ''ok'')
   \<and> argmin other (store_of_view [trial_failed, trial_ok_half]) = Inr (JStr ''a'')
   \<and> bestTrial (store_of_view [trial_failed]) (compare_default other) = Inr (Some trial_failed)
   \<and> argmin other (store_of_view [trial_failed]) = Inr (JStr ''a'')
   \<and> argmax other (store_of_view [trial_failed]) = Inr (JStr ''a'')"
  by (simp add: bestTrial_def argmin_def argmax_def store_of_view_def trial_failed_def
      trial_ok_half_def obj_get_def STATUS_OK_def compare_default_def js_lt_def)

lemma num_lt_irrefl: "\<not> num_lt x x"
  by (cases x) simp_all

lemma num_lt_trans: "num_lt x y \<Longrightarrow> num_lt y z \<Longrightarrow> num_lt x z"
  by (cases x; cases y; cases z) simp_all

lemma num_le_iff: "x \<noteq> NaN \<Longrightarrow> y \<noteq> NaN \<Longrightarrow> num_le x y = (\<not> num_lt y x)"
  by (cases x; cases y) simp_all

lemma js_lt_num: "js_lt other (JNum x) (JNum y) = num_lt x y"
  by (simp add: js_lt_def)

lemma forEach_best:
  assumes "\<forall>t\<in>set ts. get_prop (obj_get t ''result'') ''status'' = Inr (JStr STATUS_OK)"
    and "\<forall>a\<in>insert best (set ts). \<forall>b\<in>insert best (set ts).
           compare (obj_get a ''result'') (obj_get b ''result'') = Inr (R a b)"
    and "\<forall>a b c. R a b \<longrightarrow> R b c \<longrightarrow> R a c"
    and "\<forall>a. \<not> R a a"
  shows "\<exists>r. bestTrial_forEach compare ts best = Inr r \<and> r \<in> insert best (set ts)
            \<and> (r = best \<or> R r best) \<and> (\<forall>t\<in>set ts. \<not> R t r)"
  using assms(1,2)
proof (induction ts arbitrary: best)
  case Nil
  then show ?case by simp
next
  case (Cons t ts)
  let ?b = "if R t best then t else best"
  have ok: "get_prop (obj_get t ''result'') ''status'' = Inr (JStr STATUS_OK)"
    using Cons.prems(1) by simp
  have cmp: "compare (obj_get t ''result'') (obj_get best ''result'') = Inr (R t best)"
    using Cons.prems(2) by simp
  have step: "bestTrial_forEach compare (t # ts) best = bestTrial_forEach compare ts ?b"
    by (simp add: ok cmp)
  have p1: "\<forall>u\<in>set ts. get_prop (obj_get u ''result'') ''status'' = Inr (JStr STATUS_OK)"
    using Cons.prems(1) by simp
  have p2: "\<forall>a\<in>insert ?b (set ts). \<forall>b\<in>insert ?b (set ts).
           compare (obj_get a ''result'') (obj_get b ''result'') = Inr (R a b)"
    using Cons.prems(2) by auto
  from Cons.IH[OF p1 p2] obtain r where
    r: "bestTrial_forEach compare ts ?b = Inr r" "r \<in> insert ?b (set ts)"
       "r = ?b \<or> R r ?b" "\<forall>u\<in>set ts. \<not> R u r"
    by blast
  have a: "r \<in> insert best (set (t # ts))" using r(2) by (auto split: if_splits)
  have b: "r = best \<or> R r best"
    using r(3) assms(3) by (auto split: if_splits)
  have c: "\<not> R t r"
  proof (cases "R t best")
    case True
    then have "r = t \<or> R r t" using r(3) by simp
    then show ?thesis using assms(3,4) by blast
  next
    case False
    then have "r = best \<or> R r best" using r(3) by simp
    then show ?thesis using False assms(3) by blast
  qed
  show ?case
    using step r(1) a b c r(4) by auto
qed

lemma status_ok_result:
  assumes "result_field t ''status'' = JStr ''ok''"
  shows "obj_get t ''result'' \<noteq> JUndefined \<and> obj_get t ''result'' \<noteq> JNull
       \<and> get_prop (obj_get t ''result'') ''status'' = Inr (JStr STATUS_OK)"
  using assms
  by (cases "obj_get t ''result''") (simp_all add: result_field_def field_def STATUS_OK_def)

lemma compare_default_loss:
  assumes "result_field a ''status'' = JStr ''ok''" "result_field b ''status'' = JStr ''ok''"
    and "result_field a ''loss'' = JNum x" "result_field b ''loss'' = JNum y"
  shows "compare_default other (obj_get a ''result'') (obj_get b ''result'') = Inr (num_lt x y)"
proof -
  have "get_prop (obj_get a ''result'') ''loss'' = Inr (JNum x)"
    using status_ok_result[OF assms(1)] assms(3) by (simp add: get_prop_field result_field_def)
  moreover have "get_prop (obj_get b ''result'') ''loss'' = Inr (JNum y)"
    using status_ok_result[OF assms(2)] assms(4) by (simp add: get_prop_field result_field_def)
  ultimately show ?thesis by (simp add: compare_default_def js_lt_num)
qed

lemma compare_argmax_accuracy:
  assumes "result_field a ''status'' = JStr ''ok''" "result_field b ''status'' = JStr ''ok''"
    and "result_field a ''loss'' = JUndefined"
    and "result_field a ''accuracy'' = JNum x" "result_field b ''accuracy'' = JNum y"
  shows "compare_argmax other (obj_get a ''result'') (obj_get b ''result'') = Inr (num_lt y x)"
proof -
  have "get_prop (obj_get a ''result'') ''loss'' = Inr JUndefined"
    using status_ok_result[OF assms(1)] assms(3) by (simp add: get_prop_field result_field_def)
  moreover have "get_prop (obj_get a ''result'') ''accuracy'' = Inr (JNum x)"
    using status_ok_result[OF assms(1)] assms(4) by (simp add: get_prop_field result_field_def)
  moreover have "get_prop (obj_get b ''result'') ''accuracy'' = Inr (JNum y)"
    using status_ok_result[OF assms(2)] assms(5) by (simp add: get_prop_field result_field_def)
  ultimately show ?thesis by (simp add: compare_argmax_def js_gt_def js_lt_num)
qed

lemma bestTrial_best:
  assumes "trials s \<noteq> []"
    and "\<forall>t\<in>set (trials s). result_field t ''status'' = JStr ''ok''"
    and "\<forall>a\<in>set (trials s). \<forall>b\<in>set (trials s).
           compare (obj_get a ''result'') (obj_get b ''result'') = Inr (R a b)"
    and "\<forall>a b c. R a b \<longrightarrow> R b c \<longrightarrow> R a c"
    and "\<forall>a. \<not> R a a"
  shows "\<exists>r\<in>set (trials s). bestTrial s compare = Inr (Some r) \<and> (\<forall>t\<in>set (trials s). \<not> R t r)"
proof -
  from assms(1) obtain first rest where v: "trials s = first # rest"
    by (cases "trials s") auto
  have ok: "\<forall>t\<in>set (trials s). get_prop (obj_get t ''result'') ''status'' = Inr (JStr STATUS_OK)"
    using assms(2) status_ok_result by blast
  have ins: "insert first (set (trials s)) = set (trials s)" using v by auto
  from forEach_best[of "trials s" first compare R] ok assms(3,4,5) ins
  obtain r where "bestTrial_forEach compare (trials s) first = Inr r" "r \<in> set (trials s)"
      "\<forall>t\<in>set (trials s). \<not> R t r"
    by auto
  then show ?thesis using v by (auto simp: bestTrial_def)
qed

text \<open>
  On a view whose results all have the status \<open>ok\<close> and whose losses are all numbers,
  \<open>argmin\<close> is \<open>undefined\<close> on the empty view and otherwise the \<open>args\<close> of a trial
  of the view that no trial of the view has a smaller loss than; when no loss is NaN, the
  loss of that trial is less than or equal to every loss of the view. Without losses and
  with numbers as accuracies, \<open>argmax\<close> is in the same way the \<open>args\<close> of a trial
  that no trial has a greater accuracy than.
\<close>

lemma argmin_argmax_unbeaten:
  assumes "\<forall>t\<in>set (trials s). result_field t ''status'' = JStr ''ok''"
  shows "((\<forall>t\<in>set (trials s). \<exists>l. result_field t ''loss'' = JNum l) \<longrightarrow>
            (trials s = [] \<and> argmin other s = Inr JUndefined)
          \<or> (\<exists>t\<in>set (trials s). argmin other s = Inr (obj_get t ''args'')
                \<and> (\<forall>u\<in>set (trials s).
                      \<not> num_lt (num_of (result_field u ''loss'')) (num_of (result_field t ''loss'')))
                \<and> ((\<forall>u\<in>set (trials s). result_field u ''loss'' \<noteq> JNum NaN) \<longrightarrow>
                      (\<forall>u\<in>set (trials s).
                         num_le (num_of (result_field t ''loss'')) (num_of (result_field u ''loss''))))))
       \<and> ((\<forall>t\<in>set (trials s). result_field t ''loss'' = JUndefined
                \<and> (\<exists>a. result_field t ''accuracy'' = JNum a)) \<longrightarrow>
            (trials s = [] \<and> argmax other s = Inr JUndefined)
          \<or> (\<exists>t\<in>set (trials s). argmax other s = Inr (obj_get t ''args'')
                \<and> (\<forall>u\<in>set (trials s).
                      \<not> num_lt (num_of (result_field t ''accuracy'')) (num_of (result_field u ''accuracy'')))
                \<and> ((\<forall>u\<in>set (trials s). result_field u ''accuracy'' \<noteq> JNum NaN) \<longrightarrow>
                      (\<forall>u\<in>set (trials s).
                         num_le (num_of (result_field u ''accuracy'')) (num_of (result_field t ''accuracy''))))))"
proof (intro conjI impI)
  assume num: "\<forall>t\<in>set (trials s). \<exists>l. result_field t ''loss'' = JNum l"
  show "(trials s = [] \<and> argmin other s = Inr JUndefined)
          \<or> (\<exists>t\<in>set (trials s). argmin other s = Inr (obj_get t ''args'')
                \<and> (\<forall>u\<in>set (trials s).
                      \<not> num_lt (num_of (result_field u ''loss'')) (num_of (result_field t ''loss'')))
                \<and> ((\<forall>u\<in>set (trials s). result_field u ''loss'' \<noteq> JNum NaN) \<longrightarrow>
                      (\<forall>u\<in>set (trials s).
                         num_le (num_of (result_field t ''loss'')) (num_of (result_field u ''loss'')))))"
  proof (cases "trials s = []")
    case True
    then show ?thesis by (simp add: argmin_def bestTrial_def)
  next
    case False
    let ?R = "\<lambda>a b. num_lt (num_of (result_field a ''loss'')) (num_of (result_field b ''loss''))"
    have cmp: "\<forall>a\<in>set (trials s). \<forall>b\<in>set (trials s).
           compare_default other (obj_get a ''result'') (obj_get b ''result'') = Inr (?R a b)"
    proof (intro ballI)
      fix a b assume a: "a \<in> set (trials s)" and b: "b \<in> set (trials s)"
      from num a obtain x where x: "result_field a ''loss'' = JNum x" by blast
      from num b obtain y where y: "result_field b ''loss'' = JNum y" by blast
      show "compare_default other (obj_get a ''result'') (obj_get b ''result'') = Inr (?R a b)"
        using compare_default_loss[OF _ _ x y] assms a b by (simp add: x y)
    qed
    have tr: "\<forall>a b c. ?R a b \<longrightarrow> ?R b c \<longrightarrow> ?R a c" using num_lt_trans by blast
    have ir: "\<forall>a. \<not> ?R a a" by (simp add: num_lt_irrefl)
    from bestTrial_best[OF False assms cmp tr ir]
    obtain r where r: "r \<in> set (trials s)" "bestTrial s (compare_default other) = Inr (Some r)"
        "\<forall>t\<in>set (trials s). \<not> ?R t r"
      by blast
    have le: "(\<forall>u\<in>set (trials s). result_field u ''loss'' \<noteq> JNum NaN) \<longrightarrow>
               (\<forall>u\<in>set (trials s).
                  num_le (num_of (result_field r ''loss'')) (num_of (result_field u ''loss'')))"
    proof (intro impI ballI)
      fix u assume nn: "\<forall>u\<in>set (trials s). result_field u ''loss'' \<noteq> JNum NaN"
        and u: "u \<in> set (trials s)"
      from num u obtain x where x: "result_field u ''loss'' = JNum x" by blast
      from num r(1) obtain y where y: "result_field r ''loss'' = JNum y" by blast
      have "x \<noteq> NaN" "y \<noteq> NaN" using nn u r(1) x y by auto
      moreover have "\<not> num_lt (num_of (result_field u ''loss'')) (num_of (result_field r ''loss''))"
        using r(3) u by blast
      ultimately show "num_le (num_of (result_field r ''loss'')) (num_of (result_field u ''loss''))"
        by (simp add: x y num_le_iff)
    qed
    have "argmin other s = Inr (obj_get r ''args'')"
      by (simp add: argmin_def r(2))
    with r(1,3) le show ?thesis by blast
  qed
next
  assume acc: "\<forall>t\<in>set (trials s). result_field t ''loss'' = JUndefined
                \<and> (\<exists>a. result_field t ''accuracy'' = JNum a)"
  show "(trials s = [] \<and> argmax other s = Inr JUndefined)
          \<or> (\<exists>t\<in>set (trials s). argmax other s = Inr (obj_get t ''args'')
                \<and> (\<forall>u\<in>set (trials s).
                      \<not> num_lt (num_of (result_field t ''accuracy'')) (num_of (result_field u ''accuracy'')))
                \<and> ((\<forall>u\<in>set (trials s). result_field u ''accuracy'' \<noteq> JNum NaN) \<longrightarrow>
                      (\<forall>u\<in>set (trials s).
                         num_le (num_of (result_field u ''accuracy'')) (num_of (result_field t ''accuracy'')))))"
  proof (cases "trials s = []")
    case True
    then show ?thesis by (simp add: argmax_def bestTrial_def)
  next
    case False
    let ?R = "\<lambda>a b. num_lt (num_of (result_field b ''accuracy'')) (num_of (result_field a ''accuracy''))"
    have cmp: "\<forall>a\<in>set (trials s). \<forall>b\<in>set (trials s).
           compare_argmax other (obj_get a ''result'') (obj_get b ''result'') = Inr (?R a b)"
    proof (intro ballI)
      fix a b assume a: "a \<in> set (trials s)" and b: "b \<in> set (trials s)"
      from acc a obtain x where x: "result_field a ''accuracy'' = JNum x" by blast
      from acc b obtain y where y: "result_field b ''accuracy'' = JNum y" by blast
      have l: "result_field a ''loss'' = JUndefined" using acc a by blast
      show "compare_argmax other (obj_get a ''result'') (obj_get b ''result'') = Inr (?R a b)"
        using compare_argmax_accuracy[OF _ _ l x y] assms a b by (simp add: x y)
    qed
    have tr: "\<forall>a b c. ?R a b \<longrightarrow> ?R b c \<longrightarrow> ?R a c" using num_lt_trans by blast
    have ir: "\<forall>a. \<not> ?R a a" by (simp add: num_lt_irrefl)
    from bestTrial_best[OF False assms cmp tr ir]
    obtain r where r: "r \<in> set (trials s)" "bestTrial s (compare_argmax other) = Inr (Some r)"
        "\<forall>t\<in>set (trials s). \<not> ?R t r"
      by blast
    have le: "(\<forall>u\<in>set (trials s). result_field u ''accuracy'' \<noteq> JNum NaN) \<longrightarrow>
               (\<forall>u\<in>set (trials s).
                  num_le (num_of (result_field u ''accuracy'')) (num_of (result_field r ''accuracy'')))"
    proof (intro impI ballI)
      fix u assume nn: "\<forall>u\<in>set (trials s). result_field u ''accuracy'' \<noteq> JNum NaN"
        and u: "u \<in> set (trials s)"
      from acc u obtain x where x: "result_field u ''accuracy'' = JNum x" by blast
      from acc r(1) obtain y where y: "result_field r ''accuracy'' = JNum y" by blast
      have "x \<noteq> NaN" "y \<noteq> NaN" using nn u r(1) x y by auto
      moreover have "\<not> num_lt (num_of (result_field r ''accuracy'')) (num_of (result_field u ''accuracy''))"
        using r(3) u by blast
      ultimately show "num_le (num_of (result_field u ''accuracy'')) (num_of (result_field r ''accuracy''))"
        by (simp add: x y num_le_iff)
    qed
    have "argmax other s = Inr (obj_get r ''args'')"
      by (simp add: argmax_def r(2))
    with r(1,3) le show ?thesis by blast
  qed
qed


lemma store_two_losses_view:
  "trials store_two_losses =
     [[(''state'', JNum (Fin 0)), (''id'', JNum (Fin 0)),
       (''result'', JObj [(''loss'', JNum (Fin (1 / 2))), (''status'', JStr ''ok'')]),
       (''args'', JStr ''first''), (''expKey'', JNull),
       (''book_time'', JNull), (''refresh_time'', JNull)],
      [(''state'', JNum (Fin 0)), (''id'', JNum (Fin 1)),
       (''result'', JObj [(''loss'', JNum (Fin (1 / 5))), (''status'', JStr ''ok'')]),
       (''args'', JStr ''second''), (''expKey'', JNull),
       (''book_time'', JNull), (''refresh_time'', JNull)]]"
  by (simp add: store_two_losses_def new_Trials_null newTrialDocs_def at_js_def upt_rec
      insertTrialDocs_def assertValidTrial_def TRIAL_KEYS_def obj_get_def key_val_def
      internalInsertTrialDocs_def refresh_def JOB_STATE_NEW_def JOB_STATE_ERROR_def)

lemma store_two_accuracies_view:
  "trials store_two_accuracies =
     [[(''state'', JNum (Fin 0)), (''id'', JNum (Fin 0)),
       (''result'', JObj [(''accuracy'', JNum (Fin (7 / 10))), (''status'', JStr ''ok'')]),
       (''args'', JStr ''first''), (''expKey'', JNull),
       (''book_time'', JNull), (''refresh_time'', JNull)],
      [(''state'', JNum (Fin 0)), (''id'', JNum (Fin 1)),
       (''result'', JObj [(''accuracy'', JNum (Fin (9 / 10))), (''status'', JStr ''ok'')]),
       (''args'', JStr ''second''), (''expKey'', JNull),
       (''book_time'', JNull), (''refresh_time'', JNull)]]"
  by (simp add: store_two_accuracies_def new_Trials_null newTrialDocs_def at_js_def upt_rec
      insertTrialDocs_def assertValidTrial_def TRIAL_KEYS_def obj_get_def key_val_def
      internalInsertTrialDocs_def refresh_def JOB_STATE_NEW_def JOB_STATE_ERROR_def)

lemma store_nan_first_view:
  "trials store_nan_first =
     [[(''state'', JNum (Fin 0)), (''id'', JNum (Fin 0)),
       (''result'', JObj [(''status'', JStr ''ok''), (''loss'', JNum NaN)]),
       (''args'', JStr ''a''), (''expKey'', JNull),
       (''book_time'', JNull), (''refresh_time'', JNull)],
      [(''state'', JNum (Fin 0)), (''id'', JNum (Fin 1)),
       (''result'', JObj [(''status'', JStr ''ok''), (''loss'', JNum (Fin 1))]),
       (''args'', JStr ''b''), (''expKey'', JNull),
       (''book_time'', JNull), (''refresh_time'', JNull)],
      [(''state'', JNum (Fin 0)), (''id'', JNum (Fin 2)),
       (''result'', JObj [(''status'', JStr ''ok''), (''loss'', JNum NegInf)]),
       (''args'', JStr ''c''), (''expKey'', JNull),
       (''book_time'', JNull), (''refresh_time'', JNull)]]"
  by (simp add: store_nan_first_def new_Trials_null newTrialDocs_def at_js_def upt_rec
      insertTrialDocs_def assertValidTrial_def TRIAL_KEYS_def obj_get_def key_val_def
      internalInsertTrialDocs_def refresh_def JOB_STATE_NEW_def JOB_STATE_ERROR_def)

lemma store_nan_second_view:
  "trials store_nan_second =
     [[(''state'', JNum (Fin 0)), (''id'', JNum (Fin 0)),
       (''result'', JObj [(''status'', JStr ''ok''), (''loss'', JNum (Fin 1))]),
       (''args'', JStr ''b''), (''expKey'', JNull),
       (''book_time'', JNull), (''refresh_time'', JNull)],
      [(''state'', JNum (Fin 0)), (''id'', JNum (Fin 1)),
       (''result'', JObj [(''status'', JStr ''ok''), (''loss'', JNum NaN)]),
       (''args'', JStr ''a''), (''expKey'', JNull),
       (''book_time'', JNull), (''refresh_time'', JNull)],
      [(''state'', JNum (Fin 0)), (''id'', JNum (Fin 2)),
       (''result'', JObj [(''status'', JStr ''ok''), (''loss'', JNum NegInf)]),
       (''args'', JStr ''c''), (''expKey'', JNull),
       (''book_time'', JNull), (''refresh_time'', JNull)]]"
  by (simp add: store_nan_second_def new_Trials_null newTrialDocs_def at_js_def upt_rec
      insertTrialDocs_def assertValidTrial_def TRIAL_KEYS_def obj_get_def key_val_def
      internalInsertTrialDocs_def refresh_def JOB_STATE_NEW_def JOB_STATE_ERROR_def)

text \<open>
  C8, as the claim states it, fails when a loss is NaN, which is a defined loss
  (\<open>NaN !== undefined\<close>) that \<open>Domain.evaluate\<close> accepts in a structured result and
  that the inserts accept in a document. With the losses NaN, 1 and -Infinity in this
  order, all three with the status \<open>ok\<close>, \<open>argmin\<close> is the \<open>args\<close> of the NaN trial,
  whose loss is not less than or equal to the two others: nothing is \<open><\<close> NaN, so the
  first trial stays the best. With the NaN in the second place \<open>argmin\<close> is the
  \<open>args\<close> of the trial whose loss is -Infinity.
\<close>

theorem argmin_returns_NaN_trial:
  "evaluate (constant_domain (JObj [(''status'', JStr ''ok''), (''loss'', JNum NaN)])) JNull
     = Inr (JObj [(''status'', JStr ''ok''), (''loss'', JNum NaN)])
   \<and> map (\<lambda>t. result_field t ''status'') (trials store_nan_first)
       = [JStr ''ok'', JStr ''ok'', JStr ''ok'']
   \<and> map (\<lambda>t. result_field t ''loss'') (trials store_nan_first)
       = [JNum NaN, JNum (Fin 1), JNum NegInf]
   \<and> map (\<lambda>t. obj_get t ''args'') (trials store_nan_first) = [JStr ''a'', JStr ''b'', JStr ''c'']
   \<and> argmin (\<lambda>a b. False) store_nan_first = Inr (JStr ''a'')
   \<and> \<not> num_le NaN (Fin 1) \<and> \<not> num_le NaN NegInf
   \<and> num_le NegInf (Fin 1) \<and> num_lt NegInf (Fin 1)
   \<and> map (\<lambda>t. result_field t ''loss'') (trials store_nan_second)
       = [JNum (Fin 1), JNum NaN, JNum NegInf]
   \<and> argmin (\<lambda>a b. False) store_nan_second = Inr (JStr ''c'')"
  by (simp add: evaluate_constant evaluate_rval_def isNaN_def indexOf_STATUS STATUS_OK_def
      store_nan_first_view store_nan_second_view result_field_def field_def obj_get_def
      argmin_def bestTrial_def compare_default_def js_lt_def)

text \<open>
  C8, amended: on a view whose results all have the status \<open>ok\<close>. When every loss is a
  number other than NaN, \<open>argmin\<close> is \<open>undefined\<close> on the empty view and otherwise the
  \<open>args\<close> of a trial of the view whose loss is less than or equal to every loss of the
  view. When no result has a loss and every accuracy is a number other than NaN,
  \<open>argmax\<close> is \<open>undefined\<close> on the empty view and otherwise the \<open>args\<close> of a trial
  of the view whose accuracy is greater than or equal to every accuracy of the view.
\<close>

theorem argmin_argmax_optimum_without_NaN:
  assumes "\<forall>t\<in>set (trials s). result_field t ''status'' = JStr ''ok''"
  shows "((\<forall>t\<in>set (trials s). \<exists>l. result_field t ''loss'' = JNum l \<and> l \<noteq> NaN) \<longrightarrow>
            (trials s = [] \<and> argmin other s = Inr JUndefined)
          \<or> (\<exists>t\<in>set (trials s). argmin other s = Inr (obj_get t ''args'')
                \<and> (\<forall>u\<in>set (trials s).
                      num_le (num_of (result_field t ''loss'')) (num_of (result_field u ''loss'')))))
       \<and> ((\<forall>t\<in>set (trials s). result_field t ''loss'' = JUndefined
                \<and> (\<exists>a. result_field t ''accuracy'' = JNum a \<and> a \<noteq> NaN)) \<longrightarrow>
            (trials s = [] \<and> argmax other s = Inr JUndefined)
          \<or> (\<exists>t\<in>set (trials s). argmax other s = Inr (obj_get t ''args'')
                \<and> (\<forall>u\<in>set (trials s).
                      num_le (num_of (result_field u ''accuracy''))
                             (num_of (result_field t ''accuracy'')))))"
proof (intro conjI impI)
  assume h: "\<forall>t\<in>set (trials s). \<exists>l. result_field t ''loss'' = JNum l \<and> l \<noteq> NaN"
  then have n: "\<forall>t\<in>set (trials s). \<exists>l. result_field t ''loss'' = JNum l"
    by blast
  from h have nn: "\<forall>u\<in>set (trials s). result_field u ''loss'' \<noteq> JNum NaN"
    by auto
  from argmin_argmax_unbeaten[OF assms, of other] n nn
  show "(trials s = [] \<and> argmin other s = Inr JUndefined)
          \<or> (\<exists>t\<in>set (trials s). argmin other s = Inr (obj_get t ''args'')
                \<and> (\<forall>u\<in>set (trials s).
                      num_le (num_of (result_field t ''loss'')) (num_of (result_field u ''loss''))))"
    by blast
next
  assume h: "\<forall>t\<in>set (trials s). result_field t ''loss'' = JUndefined
                \<and> (\<exists>a. result_field t ''accuracy'' = JNum a \<and> a \<noteq> NaN)"
  then have n: "\<forall>t\<in>set (trials s). result_field t ''loss'' = JUndefined
                \<and> (\<exists>a. result_field t ''accuracy'' = JNum a)"
    by blast
  from h have nn: "\<forall>u\<in>set (trials s). result_field u ''accuracy'' \<noteq> JNum NaN"
    by auto
  from argmin_argmax_unbeaten[OF assms, of other] n nn
  show "(trials s = [] \<and> argmax other s = Inr JUndefined)
          \<or> (\<exists>t\<in>set (trials s). argmax other s = Inr (obj_get t ''args'')
                \<and> (\<forall>u\<in>set (trials s).
                      num_le (num_of (result_field u ''accuracy''))
                             (num_of (result_field t ''accuracy''))))"
    by blast
qed

theorem argmin_argmax_optimum_without_NaN_witness:
  "map (\<lambda>t. result_field t ''status'') (trials store_two_losses) = [JStr ''ok'', JStr ''ok'']
   \<and> map (\<lambda>t. result_field t ''loss'') (trials store_two_losses)
       = [JNum (Fin (1 / 2)), JNum (Fin (1 / 5))]
   \<and> argmin (\<lambda>a b. False) store_two_losses = Inr (JStr ''second'')
   \<and> map (\<lambda>t. result_field t ''status'') (trials store_two_accuracies) = [JStr ''ok'', JStr ''ok'']
   \<and> map (\<lambda>t. result_field t ''loss'') (trials store_two_accuracies) = [JUndefined, JUndefined]
   \<and> map (\<lambda>t. result_field t ''accuracy'') (trials store_two_accuracies)
       = [JNum (Fin (7 / 10)), JNum (Fin (9 / 10))]
   \<and> argmax (\<lambda>a b. False) store_two_accuracies = Inr (JStr ''second'')"
proof -
  have l: "\<forall>t\<in>set (trials store_two_losses). result_field t ''status'' = JStr ''ok''"
    by (simp add: store_two_losses_view result_field_def field_def obj_get_def)
  have a: "\<forall>t\<in>set (trials store_two_accuracies). result_field t ''status'' = JStr ''ok''"
    by (simp add: store_two_accuracies_view result_field_def field_def obj_get_def)
  have "argmin (\<lambda>a b. False) store_two_losses = Inr (JStr ''second'')"
    using argmin_argmax_optimum_without_NaN[OF l, of "\<lambda>a b. False"]
    by (simp add: store_two_losses_view result_field_def field_def obj_get_def)
  moreover have "argmax (\<lambda>a b. False) store_two_accuracies = Inr (JStr ''second'')"
    using argmin_argmax_optimum_without_NaN[OF a, of "\<lambda>a b. False"]
    by (simp add: store_two_accuracies_view result_field_def field_def obj_get_def)
  ultimately show ?thesis
    by (simp add: store_two_losses_view store_two_accuracies_view result_field_def field_def
        obj_get_def)
qed

section \<open>Expression evaluator: trees without capability call\<close>

lemma obj_set_fresh: "key \<notin> fst ` set r \<Longrightarrow> obj_set r key v = r @ [(key, v)]"
  by (induction r) auto

lemma eval_identity:
  "capfree this x \<Longrightarrow> distinct_keys x \<Longrightarrow> eval_node this x rng = Inr (x, rng)"
  "capfree_items this xs \<Longrightarrow> distinct_keys_items xs \<Longrightarrow> eval_items this xs rng = Inr (xs, rng)"
  "capfree_fields this fs \<Longrightarrow> distinct_keys_fields fs \<Longrightarrow> distinct (map fst r @ map fst fs)
     \<Longrightarrow> eval_keys this fs r rng = Inr (r @ fs, rng)"
proof (induction this x rng and this xs rng and this fs r rng rule: eval_node_eval_items_eval_keys.induct)
  case (9 this key v fs r rng)
  then show ?case by (simp add: obj_set_fresh)
qed (simp_all)

lemma eval_without_options: "eval this fresh e NoOpts = Inl TypeError"
  by (simp add: eval_def)

text \<open>A capability call is replaced by what the capability returns, and the random state
  goes from one call to the next.\<close>

lemma eval_tree_sampled:
  "eval space_uniform 0 tree_sampled (Opts None)
     = Inr (JObj [(''lr'', JNum (Fin 0)), (''layers'', JArr [JNum (Fin 1), JStr ''relu''])], 2)"
  by (simp add: eval_def tree_sampled_def space_uniform_def obj_get_def)

text \<open>
  C9: called with its options object (\<open>{ rng }\<close>, the random state given or not),
  \<open>eval\<close> returns \<open>undefined\<close> and \<open>null\<close> as they are, and returns every tree
  without capability call as it is: the same scalars, the same elements in the same
  order, the same keys in the same order with the same values. The random state is left
  as it was.
\<close>

theorem eval_identity_without_capability:
  "eval this fresh JUndefined (Opts rState)
     = Inr (JUndefined, case rState of None \<Rightarrow> fresh | Some rng \<Rightarrow> rng)
   \<and> eval this fresh JNull (Opts rState)
     = Inr (JNull, case rState of None \<Rightarrow> fresh | Some rng \<Rightarrow> rng)
   \<and> (capfree this e \<and> distinct_keys e \<longrightarrow>
        eval this fresh e (Opts rState)
          = Inr (e, case rState of None \<Rightarrow> fresh | Some rng \<Rightarrow> rng))"
  by (simp add: eval_def eval_identity(1))

theorem eval_identity_without_capability_witness:
  "capfree space_uniform tree_plain \<and> distinct_keys tree_plain
   \<and> eval space_uniform 0 tree_plain (Opts (Some 5)) = Inr (tree_plain, 5)
   \<and> eval space_uniform 0 tree_plain (Opts None) = Inr (tree_plain, 0)
   \<and> eval space_uniform 0 JNull (Opts None) = Inr (JNull, 0)"
proof -
  have c: "capfree space_uniform tree_plain"
    by (simp add: tree_plain_def space_uniform_def obj_get_def)
  have d: "distinct_keys tree_plain"
    by (simp add: tree_plain_def)
  show ?thesis
    using c d eval_identity_without_capability[of space_uniform 0 "Some 5" tree_plain]
      eval_identity_without_capability[of space_uniform 0 None tree_plain]
    by simp
qed


end
